theory Spec2Isabelle
  imports Main
begin

section \<open>The GitHub integration of lib/runsimgh\<close>

text \<open>
  A shallow embedding of \<^verbatim>\<open>lib/runsimgh/runsimgh.go\<close>. Go pointers are options
  (\<open>None\<close> is \<^verbatim>\<open>nil\<close>), the receiver \<^verbatim>\<open>gh *Integration\<close> is passed in and
  returned updated, a returned \<^verbatim>\<open>error\<close> is an \<open>error option\<close>, and a panic
  (nil dereference, \<^verbatim>\<open>panic(err)\<close>) is an outcome of its own.
\<close>

subsection \<open>Errors and panics\<close>

text \<open>
  \<open>ErrorsNew\<close> is a value built by \<^verbatim>\<open>errors.New\<close> in this package; \<open>LibError\<close> is
  an error value handed back by a collaborator (state store, parameter store, ghinstallation,
  go-github), which the package only passes on.
\<close>

datatype error = ErrorsNew string | LibError string

datatype panic = NilDereference | AtoiFailed string

datatype 'a result = Value 'a | Panicked panic

datatype outcome = Return "error option" | Panic panic

subsection \<open>The library's data, as far as the package reads or writes it\<close>

type_synonym timestamp = int

record PullRequestBranch =
  Ref :: "string option"
  SHA :: "string option"

record PullRequest =
  Head :: "PullRequestBranch option"

record CheckRun =
  CheckRun_ID :: "int option"
  CheckRun_Name :: "string option"
  CheckRun_Status :: "string option"
  CheckRun_Conclusion :: "string option"

record CheckRunOutput =
  Title :: "string option"
  Summary :: "string option"

record CreateCheckRunOptions =
  Create_Name :: string
  Create_HeadBranch :: string
  Create_HeadSHA :: string

record ListCheckRunsOptions =
  CheckName :: "string option"
  Filter :: "string option"

record ListCheckRunsResults =
  Total :: "int option"
  CheckRuns :: "CheckRun option list"

record UpdateCheckRunOptions =
  Update_Name :: string
  Update_HeadBranch :: "string option"
  Update_HeadSHA :: "string option"
  Update_Status :: "string option"
  Update_Conclusion :: "string option"
  Update_CompletedAt :: "timestamp option"
  Update_Output :: "CheckRunOutput option"

text \<open>The getters of go-github are nil-safe: a nil receiver or a nil field reads as the zero value.\<close>

definition GetRef :: "PullRequestBranch option \<Rightarrow> string" where
  "GetRef b = (case b of None \<Rightarrow> [] | Some h \<Rightarrow> (case Ref h of None \<Rightarrow> [] | Some r \<Rightarrow> r))"

definition GetSHA :: "PullRequestBranch option \<Rightarrow> string" where
  "GetSHA b = (case b of None \<Rightarrow> [] | Some h \<Rightarrow> (case SHA h of None \<Rightarrow> [] | Some s \<Rightarrow> s))"

definition GetID :: "CheckRun option \<Rightarrow> int" where
  "GetID c = (case c of None \<Rightarrow> 0 | Some r \<Rightarrow> (case CheckRun_ID r of None \<Rightarrow> 0 | Some i \<Rightarrow> i))"

definition GetName :: "CheckRun option \<Rightarrow> string" where
  "GetName c = (case c of None \<Rightarrow> [] | Some r \<Rightarrow> (case CheckRun_Name r of None \<Rightarrow> [] | Some n \<Rightarrow> n))"

definition GetConclusion :: "CheckRun option \<Rightarrow> string" where
  "GetConclusion c =
     (case c of None \<Rightarrow> [] | Some r \<Rightarrow> (case CheckRun_Conclusion r of None \<Rightarrow> [] | Some n \<Rightarrow> n))"

text \<open>
  \<^verbatim>\<open>ghapp.New\<close> yields a transport for an application id, an installation id and a
  private key; \<^verbatim>\<open>github.NewClient\<close> wraps it.
\<close>

datatype transport = Transport int int string

datatype client = GithubClient transport

subsection \<open>The state store and the parameter store: bindings\<close>

text \<open>
  Modelled from the spec: the types \<^verbatim>\<open>runsimaws.DdbTable\<close> and \<^verbatim>\<open>runsimaws.Ssm\<close>, declared in
  package runsimaws outside this package. The spec configures the state store with a region,
  a key field name and a table name, and the secret provider with a region.
\<close>

record DdbTable =
  Region :: string
  PrimaryKey :: string
  TableName :: string

record Ssm =
  Ssm_Region :: string

definition primaryKey :: string where
  "primaryKey = ''IntegrationType''"

definition tableName :: string where
  "tableName = ''SimulationState''"

subsection \<open>The Integration\<close>

record Integration =
  Client :: "client option"
  PR :: "PullRequest option"
  ActiveCheckRun :: "CheckRun option"
  State :: "DdbTable option"
  IntegrationType :: "string option"
  CheckRunName :: "string option"
  InstallationID :: "string option"
  IntegrationID :: "string option"
  RepoOwner :: "string option"
  RepoName :: "string option"
  PrNum :: "string option"

subsection \<open>strconv.Atoi\<close>

text \<open>
  Go's \<^verbatim>\<open>strconv.Atoi\<close> where \<^verbatim>\<open>int\<close> has 64 bits: an optional sign, then one or
  more decimal digits, and a value within the range of \<^verbatim>\<open>int\<close>. \<open>None\<close> stands for the
  returned \<^verbatim>\<open>*NumError\<close>.
\<close>

definition digit_val :: "char \<Rightarrow> int option" where
  "digit_val c =
     (let n = (of_char c :: nat) in if 48 \<le> n \<and> n \<le> 57 then Some (int n - 48) else None)"

fun parse_digits :: "string \<Rightarrow> int \<Rightarrow> int option" where
  "parse_digits [] n = Some n"
| "parse_digits (c # cs) n =
     (case digit_val c of None \<Rightarrow> None | Some d \<Rightarrow> parse_digits cs (n * 10 + d))"

definition Atoi :: "string \<Rightarrow> int option" where
  "Atoi s =
     (case s of
        [] \<Rightarrow> None
      | c # cs \<Rightarrow>
          (let signed = (c = CHR ''-'' \<or> c = CHR ''+'');
               body = (if signed then cs else s)
           in if body = [] then None
              else (case parse_digits body 0 of
                      None \<Rightarrow> None
                    | Some n \<Rightarrow>
                        (let v = (if c = CHR ''-'' then - n else n)
                         in if - (2 ^ 63) \<le> v \<and> v < 2 ^ 63 then Some v else None))))"

subsection \<open>Accessors\<close>

definition GetOwner :: "Integration \<Rightarrow> string result" where
  "GetOwner gh = (case RepoOwner gh of None \<Rightarrow> Panicked NilDereference | Some s \<Rightarrow> Value s)"

definition GetRepo :: "Integration \<Rightarrow> string result" where
  "GetRepo gh = (case RepoName gh of None \<Rightarrow> Panicked NilDereference | Some s \<Rightarrow> Value s)"

definition GetCheckRunName :: "Integration \<Rightarrow> string result" where
  "GetCheckRunName gh =
     (case CheckRunName gh of None \<Rightarrow> Panicked NilDereference | Some s \<Rightarrow> Value s)"

definition GetPrNum :: "Integration \<Rightarrow> int result" where
  "GetPrNum gh =
     (case PrNum gh of
        None \<Rightarrow> Panicked NilDereference
      | Some s \<Rightarrow> (case Atoi s of None \<Rightarrow> Panicked (AtoiFailed s) | Some num \<Rightarrow> Value num))"

definition GetAppInstID :: "Integration \<Rightarrow> int result" where
  "GetAppInstID gh =
     (case InstallationID gh of
        None \<Rightarrow> Panicked NilDereference
      | Some s \<Rightarrow> (case Atoi s of None \<Rightarrow> Panicked (AtoiFailed s) | Some i \<Rightarrow> Value i))"

definition GetAppIntID :: "Integration \<Rightarrow> int result" where
  "GetAppIntID gh =
     (case IntegrationID gh of
        None \<Rightarrow> Panicked NilDereference
      | Some s \<Rightarrow> (case Atoi s of None \<Rightarrow> Panicked (AtoiFailed s) | Some i \<Rightarrow> Value i))"

subsection \<open>ValidateState\<close>

definition ValidateState :: "Integration \<Rightarrow> error option" where
  "ValidateState gh =
     (if IntegrationID gh = None then Some (ErrorsNew ''ErrorMissingAttribute: IntegrationID'')
      else if InstallationID gh = None then Some (ErrorsNew ''ErrorMissingAttribute: InstallationID '')
      else if PrNum gh = None then Some (ErrorsNew ''ErrorMissingAttribute: PrNum'')
      else if RepoName gh = None then Some (ErrorsNew ''ErrorMissingAttribute: RepoName'')
      else if RepoOwner gh = None then Some (ErrorsNew ''ErrorMissingAttribute: RepoOwner'')
      else if CheckRunName gh = None then Some (ErrorsNew ''ErrorMissingAttribute: CheckRunName'')
      else None)"

text \<open>
  The specification's reading of validation, to compare with the code: the six required
  fields in their fixed order, the first absent one found by a left-to-right search, and the
  error reported for it (the text is the code's; the one for the installation id ends in a
  blank).
\<close>

datatype required_field = F_appId | F_installationId | F_prNumber | F_repoName | F_repoOwner | F_checkRunName

definition required_fields :: "required_field list" where
  "required_fields = [F_appId, F_installationId, F_prNumber, F_repoName, F_repoOwner, F_checkRunName]"

fun absent :: "Integration \<Rightarrow> required_field \<Rightarrow> bool" where
  "absent gh F_appId = (IntegrationID gh = None)"
| "absent gh F_installationId = (InstallationID gh = None)"
| "absent gh F_prNumber = (PrNum gh = None)"
| "absent gh F_repoName = (RepoName gh = None)"
| "absent gh F_repoOwner = (RepoOwner gh = None)"
| "absent gh F_checkRunName = (CheckRunName gh = None)"

fun attribute_name :: "required_field \<Rightarrow> string" where
  "attribute_name F_appId = ''IntegrationID''"
| "attribute_name F_installationId = ''InstallationID ''"
| "attribute_name F_prNumber = ''PrNum''"
| "attribute_name F_repoName = ''RepoName''"
| "attribute_name F_repoOwner = ''RepoOwner''"
| "attribute_name F_checkRunName = ''CheckRunName''"

definition missing_attribute :: "required_field \<Rightarrow> error" where
  "missing_attribute f = ErrorsNew (''ErrorMissingAttribute: '' @ attribute_name f)"

definition first_missing :: "Integration \<Rightarrow> required_field option" where
  "first_missing gh = List.find (absent gh) required_fields"

subsection \<open>The world outside: collaborators' answers, the stored records, the calls made\<close>

text \<open>
  Modelled from the spec: the record the state store keeps of an Integration, which package
  runsimaws builds outside this package. The spec persists the identity and configuration
  fields only, never \<open>Client\<close>, \<open>PR\<close> or \<open>ActiveCheckRun\<close> (nor, here, the binding
  \<open>State\<close>).
\<close>

record item =
  Item_IntegrationType :: "string option"
  Item_CheckRunName :: "string option"
  Item_InstallationID :: "string option"
  Item_IntegrationID :: "string option"
  Item_RepoOwner :: "string option"
  Item_RepoName :: "string option"
  Item_PrNum :: "string option"

text \<open>Every call the package makes to a collaborator, with its arguments.\<close>

datatype call =
    DdbGetState DdbTable string
  | DdbPutState DdbTable Integration
  | SsmGetParameter Ssm string
  | GhappNew int int string
  | PullRequestsGet client string string int
  | ChecksCreateCheckRun client string string CreateCheckRunOptions
  | ChecksListCheckRunsForRef client string string string ListCheckRunsOptions
  | ChecksGetCheckRun client string string int
  | ChecksUpdateCheckRun client string string int UpdateCheckRunOptions

text \<open>
  The world: the tables of the state store (by region and table name, then by partition key
  value) and the calls made so far, oldest first.
\<close>

record world =
  tables :: "string \<times> string \<Rightarrow> string \<Rightarrow> item option"
  calls :: "call list"

text \<open>
  The collaborators' answers are parameters. A go-github call answers with a pointer and an
  error, and the package stores the pointer whatever the error is, so both are kept.
\<close>

record env =
  GetState_fault :: "DdbTable \<Rightarrow> string \<Rightarrow> error option"
  PutState_fault :: "DdbTable \<Rightarrow> Integration \<Rightarrow> error option"
  Ssm_GetParameter :: "Ssm \<Rightarrow> string \<Rightarrow> error + string"
  ghapp_New :: "int \<Rightarrow> int \<Rightarrow> string \<Rightarrow> error + transport"
  PullRequests_Get :: "client \<Rightarrow> string \<Rightarrow> string \<Rightarrow> int \<Rightarrow> PullRequest option \<times> error option"
  Checks_CreateCheckRun ::
    "client \<Rightarrow> string \<Rightarrow> string \<Rightarrow> CreateCheckRunOptions \<Rightarrow> CheckRun option \<times> error option"
  Checks_ListCheckRunsForRef ::
    "client \<Rightarrow> string \<Rightarrow> string \<Rightarrow> string \<Rightarrow> ListCheckRunsOptions \<Rightarrow>
       ListCheckRunsResults option \<times> error option"
  Checks_GetCheckRun :: "client \<Rightarrow> string \<Rightarrow> string \<Rightarrow> int \<Rightarrow> CheckRun option \<times> error option"
  Checks_UpdateCheckRun ::
    "client \<Rightarrow> string \<Rightarrow> string \<Rightarrow> int \<Rightarrow> UpdateCheckRunOptions \<Rightarrow> CheckRun option \<times> error option"
  time_Now :: timestamp

definition record_call :: "call \<Rightarrow> world \<Rightarrow> world" where
  "record_call c w = w\<lparr>calls := calls w @ [c]\<rparr>"

subsection \<open>The state store (package runsimaws)\<close>

text \<open>
  Modelled from the spec: the methods \<^verbatim>\<open>Config\<close>, \<^verbatim>\<open>GetState\<close> and \<^verbatim>\<open>PutState\<close> of
  \<^verbatim>\<open>runsimaws.DdbTable\<close>, whose code lies outside this package. The spec gives
  \<^verbatim>\<open>configure(region, keyFieldName, tableName)\<close>, \<^verbatim>\<open>load(keyValue, destination) -> error\<close>
  and \<^verbatim>\<open>save(source) -> error\<close> (upsert), with opaque transport or not-found failures, one
  record per integration type under the partition key, and only the identity and
  configuration fields persisted.
\<close>

definition DdbTable_Config :: "string \<Rightarrow> string \<Rightarrow> string \<Rightarrow> DdbTable" where
  "DdbTable_Config region keyField tbl = \<lparr>Region = region, PrimaryKey = keyField, TableName = tbl\<rparr>"

text \<open>
  Modelled from the spec: what \<^verbatim>\<open>save\<close> takes from its source, the seven persisted fields.
\<close>

definition item_of :: "Integration \<Rightarrow> item" where
  "item_of gh =
     \<lparr>Item_IntegrationType = IntegrationType gh, Item_CheckRunName = CheckRunName gh,
      Item_InstallationID = InstallationID gh, Item_IntegrationID = IntegrationID gh,
      Item_RepoOwner = RepoOwner gh, Item_RepoName = RepoName gh, Item_PrNum = PrNum gh\<rparr>"

text \<open>
  Modelled from the spec: what \<^verbatim>\<open>load\<close> does to its destination, assigning the seven
  persisted fields from the record and nothing else.
\<close>

definition load_item :: "item \<Rightarrow> Integration \<Rightarrow> Integration" where
  "load_item it gh =
     gh\<lparr>IntegrationType := Item_IntegrationType it, CheckRunName := Item_CheckRunName it,
        InstallationID := Item_InstallationID it, IntegrationID := Item_IntegrationID it,
        RepoOwner := Item_RepoOwner it, RepoName := Item_RepoName it, PrNum := Item_PrNum it\<rparr>"

text \<open>
  Modelled from the spec: \<^verbatim>\<open>load\<close>. A fault of the transport or a missing record is an
  error and leaves the destination as it was; otherwise the record's fields are loaded.
\<close>

definition GetState :: "env \<Rightarrow> DdbTable \<Rightarrow> string \<Rightarrow> Integration \<Rightarrow> world \<Rightarrow> error option \<times> Integration \<times> world" where
  "GetState e t key gh w =
     (let w1 = record_call (DdbGetState t key) w
      in case GetState_fault e t key of
           Some err \<Rightarrow> (Some err, gh, w1)
         | None \<Rightarrow>
             (case tables w (Region t, TableName t) key of
                None \<Rightarrow> (Some (LibError ''state record not found''), gh, w1)
              | Some it \<Rightarrow> (None, load_item it gh, w1)))"

text \<open>
  Modelled from the spec: \<^verbatim>\<open>save\<close>, an upsert under the record's partition key value
  (its integration type). A fault of the transport, or a record without its key, is an error
  and writes nothing.
\<close>

definition PutState :: "env \<Rightarrow> DdbTable \<Rightarrow> Integration \<Rightarrow> world \<Rightarrow> error option \<times> world" where
  "PutState e t gh w =
     (let w1 = record_call (DdbPutState t gh) w
      in case PutState_fault e t gh of
           Some err \<Rightarrow> (Some err, w1)
         | None \<Rightarrow>
             (case IntegrationType gh of
                None \<Rightarrow> (Some (LibError ''state record without partition key''), w1)
              | Some k \<Rightarrow>
                  (None, w1\<lparr>tables := (tables w1)
                     ((Region t, TableName t) := (tables w1 (Region t, TableName t))(k \<mapsto> item_of gh))\<rparr>)))"

text \<open>
  Modelled from the spec: \<^verbatim>\<open>Config\<close> of \<^verbatim>\<open>runsimaws.Ssm\<close>, the secret provider's
  \<^verbatim>\<open>configure(region)\<close>. Its \<^verbatim>\<open>GetParameter\<close> is the parameter \<open>Ssm_GetParameter\<close>.
\<close>

definition Ssm_Config :: "string \<Rightarrow> Ssm" where
  "Ssm_Config region = \<lparr>Ssm_Region = region\<rparr>"

subsection \<open>Construction\<close>

text \<open>
  Both constructors end in the same statements: fetch the private key, build the transport
  from the two numeric ids (evaluated left to right, each of which may panic), install the
  client, fetch the pull request. The pull request pointer is stored whatever the error is.
\<close>

definition ConfigFromState :: "env \<Rightarrow> string \<Rightarrow> string \<Rightarrow> Integration \<Rightarrow> world \<Rightarrow> outcome \<times> Integration \<times> world" where
  "ConfigFromState e awsRegion ghAccessTokenID gh w =
     (let t = DdbTable_Config awsRegion primaryKey tableName;
          gh1 = gh\<lparr>State := Some t\<rparr>
      in case GetState e t ''GitHub'' gh1 w of
           (Some err, gh2, w1) \<Rightarrow> (Return (Some err), gh2, w1)
         | (None, gh2, w1) \<Rightarrow>
             (case ValidateState gh2 of
                Some err \<Rightarrow> (Return (Some err), gh2, w1)
              | None \<Rightarrow>
                 (let ssm = Ssm_Config awsRegion;
                      w2 = record_call (SsmGetParameter ssm ghAccessTokenID) w1
                  in case Ssm_GetParameter e ssm ghAccessTokenID of
                       Inl err \<Rightarrow> (Return (Some err), gh2, w2)
                     | Inr privateKey \<Rightarrow>
                         (case GetAppIntID gh2 of
                            Panicked p \<Rightarrow> (Panic p, gh2, w2)
                          | Value appID \<Rightarrow>
                         (case GetAppInstID gh2 of
                            Panicked p \<Rightarrow> (Panic p, gh2, w2)
                          | Value instID \<Rightarrow>
                         (let w3 = record_call (GhappNew appID instID privateKey) w2
                          in case ghapp_New e appID instID privateKey of
                               Inl err \<Rightarrow> (Return (Some err), gh2, w3)
                             | Inr transport \<Rightarrow>
                         (let c = GithubClient transport;
                              gh3 = gh2\<lparr>Client := Some c\<rparr>
                          in case GetOwner gh3 of
                               Panicked p \<Rightarrow> (Panic p, gh3, w3)
                             | Value owner \<Rightarrow>
                         (case GetRepo gh3 of
                            Panicked p \<Rightarrow> (Panic p, gh3, w3)
                          | Value repo \<Rightarrow>
                         (case GetPrNum gh3 of
                            Panicked p \<Rightarrow> (Panic p, gh3, w3)
                          | Value num \<Rightarrow>
                         (let w4 = record_call (PullRequestsGet c owner repo num) w3;
                              r = PullRequests_Get e c owner repo num
                          in (Return (snd r), gh3\<lparr>PR := fst r\<rparr>, w4)))))))))))"

definition ConfigFromScratch ::
  "env \<Rightarrow> string \<Rightarrow> string \<Rightarrow> string \<Rightarrow> string \<Rightarrow> string \<Rightarrow> string \<Rightarrow> string \<Rightarrow> string \<Rightarrow>
     Integration \<Rightarrow> world \<Rightarrow> outcome \<times> Integration \<times> world" where
  "ConfigFromScratch e awsRegion privateKeyID repoOwner repoName checkRunName installationID
       integrationID prNum gh w =
     (let t = DdbTable_Config awsRegion primaryKey tableName;
          gh1 = gh\<lparr>RepoOwner := Some repoOwner, RepoName := Some repoName,
                   CheckRunName := Some checkRunName, InstallationID := Some installationID,
                   IntegrationID := Some integrationID, PrNum := Some prNum,
                   IntegrationType := Some ''GitHub'', State := Some t\<rparr>
      in case PutState e t gh1 w of
           (Some err, w1) \<Rightarrow> (Return (Some err), gh1, w1)
         | (None, w1) \<Rightarrow>
                 (let ssm = Ssm_Config awsRegion;
                      w2 = record_call (SsmGetParameter ssm privateKeyID) w1
                  in case Ssm_GetParameter e ssm privateKeyID of
                       Inl err \<Rightarrow> (Return (Some err), gh1, w2)
                     | Inr privateKey \<Rightarrow>
                         (case GetAppIntID gh1 of
                            Panicked p \<Rightarrow> (Panic p, gh1, w2)
                          | Value appID \<Rightarrow>
                         (case GetAppInstID gh1 of
                            Panicked p \<Rightarrow> (Panic p, gh1, w2)
                          | Value instID \<Rightarrow>
                         (let w3 = record_call (GhappNew appID instID privateKey) w2
                          in case ghapp_New e appID instID privateKey of
                               Inl err \<Rightarrow> (Return (Some err), gh1, w3)
                             | Inr transport \<Rightarrow>
                         (let c = GithubClient transport;
                              gh3 = gh1\<lparr>Client := Some c\<rparr>
                          in case GetOwner gh3 of
                               Panicked p \<Rightarrow> (Panic p, gh3, w3)
                             | Value owner \<Rightarrow>
                         (case GetRepo gh3 of
                            Panicked p \<Rightarrow> (Panic p, gh3, w3)
                          | Value repo \<Rightarrow>
                         (case GetPrNum gh3 of
                            Panicked p \<Rightarrow> (Panic p, gh3, w3)
                          | Value num \<Rightarrow>
                         (let w4 = record_call (PullRequestsGet c owner repo num) w3;
                              r = PullRequests_Get e c owner repo num
                          in (Return (snd r), gh3\<lparr>PR := fst r\<rparr>, w4))))))))))"

subsection \<open>Check runs\<close>

definition CreateNewCheckRun :: "env \<Rightarrow> Integration \<Rightarrow> world \<Rightarrow> outcome \<times> Integration \<times> world" where
  "CreateNewCheckRun e gh w =
     (case GetCheckRunName gh of
        Panicked p \<Rightarrow> (Panic p, gh, w)
      | Value name \<Rightarrow>
     (case PR gh of
        None \<Rightarrow> (Panic NilDereference, gh, w)
      | Some pr \<Rightarrow>
     (let opt = \<lparr>Create_Name = name, Create_HeadBranch = GetRef (Head pr),
                 Create_HeadSHA = GetSHA (Head pr)\<rparr>
      in case Client gh of
           None \<Rightarrow> (Panic NilDereference, gh, w)
         | Some c \<Rightarrow>
     (case GetOwner gh of
        Panicked p \<Rightarrow> (Panic p, gh, w)
      | Value owner \<Rightarrow>
     (case GetRepo gh of
        Panicked p \<Rightarrow> (Panic p, gh, w)
      | Value repo \<Rightarrow>
     (let w1 = record_call (ChecksCreateCheckRun c owner repo opt) w;
          r = Checks_CreateCheckRun e c owner repo opt;
          gh1 = gh\<lparr>ActiveCheckRun := fst r\<rparr>
      in case snd r of
           Some err \<Rightarrow> (Return (Some err), gh1, w1)
         | None \<Rightarrow>
             (case ActiveCheckRun gh1 of
                None \<Rightarrow> (Panic NilDereference, gh1, w1)
              | Some cr \<Rightarrow> (Return None, gh1\<lparr>CheckRunName := CheckRun_Name cr\<rparr>, w1))))))))"

definition SetActiveCheckRun :: "env \<Rightarrow> Integration \<Rightarrow> world \<Rightarrow> outcome \<times> Integration \<times> world" where
  "SetActiveCheckRun e gh w =
     (case Client gh of
        None \<Rightarrow> (Panic NilDereference, gh, w)
      | Some c \<Rightarrow>
     (case GetOwner gh of
        Panicked p \<Rightarrow> (Panic p, gh, w)
      | Value owner \<Rightarrow>
     (case GetRepo gh of
        Panicked p \<Rightarrow> (Panic p, gh, w)
      | Value repo \<Rightarrow>
     (case PR gh of
        None \<Rightarrow> (Panic NilDereference, gh, w)
      | Some pr \<Rightarrow>
     (case GetCheckRunName gh of
        Panicked p \<Rightarrow> (Panic p, gh, w)
      | Value name \<Rightarrow>
     (let opt = \<lparr>CheckName = Some name, Filter = Some ''latest''\<rparr>;
          w1 = record_call (ChecksListCheckRunsForRef c owner repo (GetRef (Head pr)) opt) w;
          r = Checks_ListCheckRunsForRef e c owner repo (GetRef (Head pr)) opt
      in case snd r of
           Some err \<Rightarrow> (Return (Some err), gh, w1)
         | None \<Rightarrow>
             (case fst r of
                None \<Rightarrow> (Panic NilDereference, gh, w1)
              | Some listCheckRunResult \<Rightarrow>
                  (case CheckRuns listCheckRunResult of
                     [] \<Rightarrow> (Return (Some (ErrorsNew ''ErrorNoActiveCheckRunsFound'')), gh, w1)
                   | cr # _ \<Rightarrow>
                       if GetConclusion cr \<noteq> []
                       then (Return (Some (ErrorsNew ''ErrorNoActiveCheckRunsFound'')), gh, w1)
                       else (Return None, gh\<lparr>ActiveCheckRun := cr\<rparr>, w1)))))))))"

definition UpdateActiveCheckRun :: "env \<Rightarrow> Integration \<Rightarrow> world \<Rightarrow> outcome \<times> Integration \<times> world" where
  "UpdateActiveCheckRun e gh w =
     (case Client gh of
        None \<Rightarrow> (Panic NilDereference, gh, w)
      | Some c \<Rightarrow>
     (case GetOwner gh of
        Panicked p \<Rightarrow> (Panic p, gh, w)
      | Value owner \<Rightarrow>
     (case GetRepo gh of
        Panicked p \<Rightarrow> (Panic p, gh, w)
      | Value repo \<Rightarrow>
     (let id = GetID (ActiveCheckRun gh);
          w1 = record_call (ChecksGetCheckRun c owner repo id) w;
          r = Checks_GetCheckRun e c owner repo id
      in (Return (snd r), gh\<lparr>ActiveCheckRun := fst r\<rparr>, w1)))))"

definition ConcludeCheckRun ::
  "env \<Rightarrow> string option \<Rightarrow> string option \<Rightarrow> Integration \<Rightarrow> world \<Rightarrow> outcome \<times> Integration \<times> world" where
  "ConcludeCheckRun e summary conclusion gh w =
     (let opt = \<lparr>Update_Name = GetName (ActiveCheckRun gh), Update_HeadBranch = None,
                 Update_HeadSHA = None, Update_Status = Some ''completed'',
                 Update_Conclusion = conclusion, Update_CompletedAt = Some (time_Now e),
                 Update_Output = Some \<lparr>Title = Some ''Details'', Summary = summary\<rparr>\<rparr>
      in case Client gh of
           None \<Rightarrow> (Panic NilDereference, gh, w)
         | Some c \<Rightarrow>
     (case GetOwner gh of
        Panicked p \<Rightarrow> (Panic p, gh, w)
      | Value owner \<Rightarrow>
     (case GetRepo gh of
        Panicked p \<Rightarrow> (Panic p, gh, w)
      | Value repo \<Rightarrow>
     (let id = GetID (ActiveCheckRun gh);
          w1 = record_call (ChecksUpdateCheckRun c owner repo id opt) w;
          r = Checks_UpdateCheckRun e c owner repo id opt
      in (Return (snd r), gh\<lparr>ActiveCheckRun := fst r\<rparr>, w1)))))"

definition UpdateCheckRunStatus ::
  "env \<Rightarrow> string option \<Rightarrow> string option \<Rightarrow> Integration \<Rightarrow> world \<Rightarrow> outcome \<times> Integration \<times> world" where
  "UpdateCheckRunStatus e status summary gh w =
     (case PR gh of
        None \<Rightarrow> (Panic NilDereference, gh, w)
      | Some pr \<Rightarrow>
     (case Head pr of
        None \<Rightarrow> (Panic NilDereference, gh, w)
      | Some head \<Rightarrow>
     (let opt0 = \<lparr>Update_Name = GetName (ActiveCheckRun gh), Update_HeadBranch = Ref head,
                  Update_HeadSHA = SHA head, Update_Status = status, Update_Conclusion = None,
                  Update_CompletedAt = None, Update_Output = None\<rparr>;
          opt = (if summary \<noteq> None
                 then opt0\<lparr>Update_Output := Some \<lparr>Title = Some ''Details'', Summary = summary\<rparr>\<rparr>
                 else opt0)
      in case Client gh of
           None \<Rightarrow> (Panic NilDereference, gh, w)
         | Some c \<Rightarrow>
     (case GetOwner gh of
        Panicked p \<Rightarrow> (Panic p, gh, w)
      | Value owner \<Rightarrow>
     (case GetRepo gh of
        Panicked p \<Rightarrow> (Panic p, gh, w)
      | Value repo \<Rightarrow>
     (let id = GetID (ActiveCheckRun gh);
          w1 = record_call (ChecksUpdateCheckRun c owner repo id opt) w;
          r = Checks_UpdateCheckRun e c owner repo id opt
      in (Return (snd r), gh\<lparr>ActiveCheckRun := fst r\<rparr>, w1)))))))"

subsection \<open>Example values\<close>

text \<open>A zero Integration, an authenticated one with an active check run, and pieces for both.\<close>

definition blank_gh :: Integration where
  "blank_gh =
     \<lparr>Client = None, PR = None, ActiveCheckRun = None, State = None, IntegrationType = None,
      CheckRunName = None, InstallationID = None, IntegrationID = None, RepoOwner = None,
      RepoName = None, PrNum = None\<rparr>"

definition example_pr :: PullRequest where
  "example_pr = \<lparr>Head = Some \<lparr>Ref = Some ''feature'', SHA = Some ''abc123''\<rparr>\<rparr>"

definition example_run :: CheckRun where
  "example_run =
     \<lparr>CheckRun_ID = Some 7, CheckRun_Name = Some ''sim'', CheckRun_Status = Some ''in_progress'',
      CheckRun_Conclusion = None\<rparr>"

definition example_client :: client where
  "example_client = GithubClient (Transport 1 2 ''key'')"

definition example_gh :: Integration where
  "example_gh =
     \<lparr>Client = Some example_client, PR = Some example_pr, ActiveCheckRun = Some example_run,
      State = None, IntegrationType = Some ''GitHub'', CheckRunName = Some ''sim'',
      InstallationID = Some ''2'', IntegrationID = Some ''1'', RepoOwner = Some ''owner'',
      RepoName = Some ''repo'', PrNum = Some ''42''\<rparr>"

definition empty_world :: world where
  "empty_world = \<lparr>tables = (\<lambda>_. Map.empty), calls = []\<rparr>"

text \<open>Collaborators that all succeed; a failing one is this environment with one answer replaced.\<close>

definition example_env :: env where
  "example_env =
     \<lparr>GetState_fault = (\<lambda>_ _. None),
      PutState_fault = (\<lambda>_ _. None),
      Ssm_GetParameter = (\<lambda>_ _. Inr ''key''),
      ghapp_New = (\<lambda>a i k. Inr (Transport a i k)),
      PullRequests_Get = (\<lambda>_ _ _ _. (Some example_pr, None)),
      Checks_CreateCheckRun = (\<lambda>_ _ _ opt.
        (Some \<lparr>CheckRun_ID = Some 7, CheckRun_Name = Some (Create_Name opt),
               CheckRun_Status = Some ''queued'', CheckRun_Conclusion = None\<rparr>, None)),
      Checks_ListCheckRunsForRef = (\<lambda>_ _ _ _ _.
        (Some \<lparr>Total = Some 1, CheckRuns = [Some example_run]\<rparr>, None)),
      Checks_GetCheckRun = (\<lambda>_ _ _ _. (Some example_run, None)),
      Checks_UpdateCheckRun = (\<lambda>_ _ _ _ opt.
        (Some \<lparr>CheckRun_ID = Some 7, CheckRun_Name = Some (Update_Name opt),
               CheckRun_Status = Update_Status opt,
               CheckRun_Conclusion = Update_Conclusion opt\<rparr>, None)),
      time_Now = 1700000000\<rparr>"

definition renaming_env :: env where
  "renaming_env = example_env\<lparr>Checks_CreateCheckRun := (\<lambda>_ _ _ _.
      (Some \<lparr>CheckRun_ID = Some 8, CheckRun_Name = Some ''renamed'',
             CheckRun_Status = Some ''queued'', CheckRun_Conclusion = None\<rparr>, None))\<rparr>"

definition failing_env :: env where
  "failing_env = example_env\<lparr>
      Checks_GetCheckRun := (\<lambda>_ _ _ _. (None, Some (LibError ''502 Bad Gateway''))),
      Checks_UpdateCheckRun := (\<lambda>_ _ _ _ _. (None, Some (LibError ''502 Bad Gateway'')))\<rparr>"

definition concluded_env :: env where
  "concluded_env = example_env\<lparr>Checks_ListCheckRunsForRef := (\<lambda>_ _ _ _ _.
      (Some \<lparr>Total = Some 1,
             CheckRuns = [Some (example_run\<lparr>CheckRun_Conclusion := Some ''success''\<rparr>)]\<rparr>, None))\<rparr>"

definition no_runs_env :: env where
  "no_runs_env = example_env\<lparr>Checks_ListCheckRunsForRef := (\<lambda>_ _ _ _ _.
      (Some \<lparr>Total = Some 0, CheckRuns = []\<rparr>, None))\<rparr>"

definition store_down_env :: env where
  "store_down_env = example_env\<lparr>PutState_fault := (\<lambda>_ _. Some (LibError ''store unreachable''))\<rparr>"

definition secret_missing_env :: env where
  "secret_missing_env = example_env\<lparr>Ssm_GetParameter := (\<lambda>_ _. Inl (LibError ''ParameterNotFound''))\<rparr>"

definition fetch_failing_env :: env where
  "fetch_failing_env = example_env\<lparr>PullRequests_Get := (\<lambda>_ _ _ _. (None, Some (LibError ''404 Not Found'')))\<rparr>"

definition bad_key_env :: env where
  "bad_key_env = example_env\<lparr>ghapp_New := (\<lambda>_ _ _. Inl (LibError ''could not parse private key''))\<rparr>"

text \<open>A world whose state table already holds the record of \<open>example_gh\<close>.\<close>

definition stored_world :: world where
  "stored_world =
     \<lparr>tables = (\<lambda>_. Map.empty)((''eu-west-1'', ''SimulationState'') := [''GitHub'' \<mapsto> item_of example_gh]),
      calls = []\<rparr>"

text \<open>A world whose stored record lacks the pull request number.\<close>

definition partial_world :: world where
  "partial_world =
     \<lparr>tables = (\<lambda>_. Map.empty)((''eu-west-1'', ''SimulationState'') :=
        [''GitHub'' \<mapsto> item_of (example_gh\<lparr>PrNum := None\<rparr>)]),
      calls = []\<rparr>"

subsection \<open>Notions used to state the properties\<close>

text \<open>The calls of the authentication sequence: secret retrieval, transport, pull request.\<close>

fun is_auth_call :: "call \<Rightarrow> bool" where
  "is_auth_call (SsmGetParameter _ _) = True"
| "is_auth_call (GhappNew _ _ _) = True"
| "is_auth_call (PullRequestsGet _ _ _ _) = True"
| "is_auth_call _ = False"

text \<open>
  The statements the two constructors share, from \<^verbatim>\<open>ssm := new(runsimaws.Ssm)\<close> to the
  final \<^verbatim>\<open>return\<close>, as one function of the Integration and the world they start from.
\<close>

definition authenticate :: "env \<Rightarrow> string \<Rightarrow> string \<Rightarrow> Integration \<Rightarrow> world \<Rightarrow> outcome \<times> Integration \<times> world" where
  "authenticate e awsRegion keyID gh w =
     (let ssm = Ssm_Config awsRegion;
          w1 = record_call (SsmGetParameter ssm keyID) w
      in case Ssm_GetParameter e ssm keyID of
           Inl err \<Rightarrow> (Return (Some err), gh, w1)
         | Inr privateKey \<Rightarrow>
             (case GetAppIntID gh of
                Panicked p \<Rightarrow> (Panic p, gh, w1)
              | Value appID \<Rightarrow>
                  (case GetAppInstID gh of
                     Panicked p \<Rightarrow> (Panic p, gh, w1)
                   | Value instID \<Rightarrow>
                       (let w2 = record_call (GhappNew appID instID privateKey) w1
                        in case ghapp_New e appID instID privateKey of
                             Inl err \<Rightarrow> (Return (Some err), gh, w2)
                           | Inr tr \<Rightarrow>
                               (let c = GithubClient tr;
                                    gh1 = gh\<lparr>Client := Some c\<rparr>
                                in case GetOwner gh1 of
                                     Panicked p \<Rightarrow> (Panic p, gh1, w2)
                                   | Value owner \<Rightarrow>
                                       (case GetRepo gh1 of
                                          Panicked p \<Rightarrow> (Panic p, gh1, w2)
                                        | Value repo \<Rightarrow>
                                            (case GetPrNum gh1 of
                                               Panicked p \<Rightarrow> (Panic p, gh1, w2)
                                             | Value num \<Rightarrow>
                                                 (let w3 = record_call (PullRequestsGet c owner repo num) w2;
                                                      r = PullRequests_Get e c owner repo num
                                                  in (Return (snd r), gh1\<lparr>PR := fst r\<rparr>, w3)))))))))"

text \<open>The decimal numeral of a natural number, the usual form of a stored identifier.\<close>

fun decimal :: "nat \<Rightarrow> string" where
  "decimal n =
     (if n < 10 then [char_of (48 + n)] else decimal (n div 10) @ [char_of (48 + n mod 10)])"

declare decimal.simps [simp del]

section \<open>Facts about the example values\<close>

lemma example_gh_fields:
  "Client example_gh = Some example_client" "RepoOwner example_gh = Some ''owner''"
  "RepoName example_gh = Some ''repo''" "PR example_gh = Some example_pr"
  "CheckRunName example_gh = Some ''sim''" "ActiveCheckRun example_gh = Some example_run"
  by (simp_all add: example_gh_def)

lemma Atoi_examples: "Atoi ''1'' = Some 1" "Atoi ''2'' = Some 2" "Atoi ''42'' = Some 42"
  by (simp_all add: Atoi_def digit_val_def)

lemma Atoi_4x2: "Atoi ''4x2'' = None"
  by (simp add: Atoi_def digit_val_def)

lemma create_example_ok: "fst (CreateNewCheckRun example_env example_gh empty_world) = Return None"
  by (simp add: CreateNewCheckRun_def example_env_def example_gh_def
      example_client_def example_pr_def GetCheckRunName_def GetOwner_def GetRepo_def
      GetRef_def GetSHA_def Let_def)

lemma create_example_fail:
  "fst (CreateNewCheckRun example_env (example_gh\<lparr>Client := None\<rparr>) empty_world) \<noteq> Return None"
  by (simp add: CreateNewCheckRun_def example_env_def example_gh_def
      example_client_def example_pr_def GetCheckRunName_def GetOwner_def GetRepo_def
      GetRef_def GetSHA_def Let_def)

section \<open>Validation\<close>

lemma ValidateState_first_missing:
  "ValidateState gh = map_option missing_attribute (first_missing gh)"
  by (simp add: ValidateState_def first_missing_def required_fields_def missing_attribute_def)

lemma attribute_name_inj: "attribute_name f = attribute_name g \<Longrightarrow> f = g"
  by (cases f; cases g) simp_all

text \<open>
  C1. ValidateState succeeds exactly when none of the six required fields is absent. It
  reports the first absent field in the order appId, installationId, prNumber, repoName,
  repoOwner, checkRunName, so when exactly one field is absent the error is the one of that
  field, and the errors of different fields differ.
\<close>

theorem ValidateState_iff_and_order:
  "(ValidateState gh = None \<longleftrightarrow>
      IntegrationID gh \<noteq> None \<and> InstallationID gh \<noteq> None \<and> PrNum gh \<noteq> None \<and>
      RepoName gh \<noteq> None \<and> RepoOwner gh \<noteq> None \<and> CheckRunName gh \<noteq> None) \<and>
   ValidateState gh = map_option missing_attribute (List.find (absent gh) required_fields) \<and>
   (\<forall>f. absent gh f \<and> (\<forall>g. g \<noteq> f \<longrightarrow> \<not> absent gh g) \<longrightarrow>
        ValidateState gh = Some (missing_attribute f)) \<and>
   (\<forall>f g. missing_attribute f = missing_attribute g \<longrightarrow> f = g)"
proof (intro conjI allI impI)
  show "ValidateState gh = None \<longleftrightarrow>
      IntegrationID gh \<noteq> None \<and> InstallationID gh \<noteq> None \<and> PrNum gh \<noteq> None \<and>
      RepoName gh \<noteq> None \<and> RepoOwner gh \<noteq> None \<and> CheckRunName gh \<noteq> None"
    by (simp add: ValidateState_def)
next
  show "ValidateState gh = map_option missing_attribute (List.find (absent gh) required_fields)"
    using ValidateState_first_missing [of gh] by (simp add: first_missing_def)
next
  fix f
  assume a: "absent gh f \<and> (\<forall>g. g \<noteq> f \<longrightarrow> \<not> absent gh g)"
  then have "List.find (absent gh) required_fields = Some f"
    by (cases f) (auto simp: required_fields_def)
  then show "ValidateState gh = Some (missing_attribute f)"
    using ValidateState_first_missing [of gh] by (simp add: first_missing_def)
next
  fix f g
  assume "missing_attribute f = missing_attribute g"
  then show "f = g"
    by (simp add: missing_attribute_def attribute_name_inj)
qed

theorem ValidateState_iff_and_order_witness:
  "ValidateState (example_gh\<lparr>PrNum := None\<rparr>) = Some (ErrorsNew ''ErrorMissingAttribute: PrNum'') \<and>
   ValidateState example_gh = None"
proof -
  let ?gh = "example_gh\<lparr>PrNum := None\<rparr>"
  have a: "absent ?gh F_prNumber \<and> (\<forall>g. g \<noteq> F_prNumber \<longrightarrow> \<not> absent ?gh g)"
  proof (intro conjI allI impI)
    show "absent ?gh F_prNumber" by simp
  next
    fix g :: required_field
    assume "g \<noteq> F_prNumber"
    then show "\<not> absent ?gh g" by (cases g) (simp_all add: example_gh_def)
  qed
  have b: "IntegrationID example_gh \<noteq> None \<and> InstallationID example_gh \<noteq> None \<and>
      PrNum example_gh \<noteq> None \<and> RepoName example_gh \<noteq> None \<and> RepoOwner example_gh \<noteq> None \<and>
      CheckRunName example_gh \<noteq> None"
    by (simp add: example_gh_def)
  from ValidateState_iff_and_order [of ?gh] a
  have "ValidateState ?gh = Some (missing_attribute F_prNumber)" by blast
  moreover from ValidateState_iff_and_order [of example_gh] b
  have "ValidateState example_gh = None" by blast
  ultimately show ?thesis by (simp add: missing_attribute_def)
qed

section \<open>Numeric accessors\<close>

text \<open>
  What \<open>Atoi\<close> accepts includes every decimal numeral below \<open>2 ^ 63\<close>, and it reads
  the numeral as the number it denotes.
\<close>

lemma digit_val_char_of: "d < 10 \<Longrightarrow> digit_val (char_of (48 + d)) = Some (int d)"
  by (simp add: digit_val_def Let_def)

lemma parse_digits_append:
  "parse_digits (xs @ ys) a =
     (case parse_digits xs a of None \<Rightarrow> None | Some b \<Rightarrow> parse_digits ys b)"
  by (induction xs arbitrary: a) (simp_all split: option.splits)

lemma parse_digits_decimal: "parse_digits (decimal n) 0 = Some (int n)"
proof (induction n rule: decimal.induct)
  case (1 n)
  show ?case
  proof (cases "n < 10")
    case True
    then show ?thesis
      by (subst decimal.simps) (simp add: digit_val_char_of)
  next
    case False
    have "n mod 10 < 10" by simp
    then have d: "digit_val (char_of (48 + n mod 10)) = Some (int (n mod 10))"
      by (rule digit_val_char_of)
    have "int (n div 10) * 10 + int (n mod 10) = int n"
      by (simp add: of_nat_mod of_nat_div)
    with False 1 d show ?thesis
      by (subst decimal.simps) (simp add: parse_digits_append)
  qed
qed

lemma decimal_first: "\<exists>c cs. decimal n = c # cs \<and> digit_val c \<noteq> None"
proof (induction n rule: decimal.induct)
  case (1 n)
  show ?case
  proof (cases "n < 10")
    case True
    then show ?thesis
      by (subst decimal.simps) (simp add: digit_val_char_of)
  next
    case False
    with 1 obtain c cs where "decimal (n div 10) = c # cs" "digit_val c \<noteq> None" by blast
    with False show ?thesis
      by (subst decimal.simps) simp
  qed
qed

lemma digit_val_sign: "digit_val (CHR ''-'') = None" "digit_val (CHR ''+'') = None"
  by (simp_all add: digit_val_def)

lemma Atoi_decimal:
  assumes "n < 2 ^ 63"
  shows "Atoi (decimal n) = Some (int n)"
proof -
  obtain c cs where s: "decimal n = c # cs" and d: "digit_val c \<noteq> None"
    using decimal_first by blast
  from d have ns: "c \<noteq> CHR ''-''" "c \<noteq> CHR ''+''"
    using digit_val_sign by auto
  have p: "parse_digits (c # cs) 0 = Some (int n)"
    using parse_digits_decimal [of n] s by simp
  have r1: "int n < 2 ^ 63"
    using assms by (metis of_nat_less_iff of_nat_numeral of_nat_power)
  have "- (2 ^ 63) \<le> (0::int)" by simp
  then have r2: "- (2 ^ 63) \<le> int n" by linarith
  have r: "(- (2 ^ 63) \<le> int n \<and> int n < 2 ^ 63) = True"
    using r1 r2 by blast
  show ?thesis
    unfolding Atoi_def s Let_def using ns p by (simp only: r list.case if_False if_True simp_thms option.case list.distinct)
qed

text \<open>
  C8. Each numeric accessor (GetPrNum, GetAppInstID, GetAppIntID) returns the integer that
  \<open>Atoi\<close> reads from the stored string, in particular the number a decimal numeral denotes;
  when \<open>Atoi\<close> rejects the stored string the accessor panics instead of returning an error.
  So over a field holding a valid integer string the panic does not occur.
\<close>

theorem numeric_accessors:
  "(\<forall>s n. PrNum gh = Some s \<and> Atoi s = Some n \<longrightarrow> GetPrNum gh = Value n) \<and>
   (\<forall>s. PrNum gh = Some s \<and> Atoi s = None \<longrightarrow> GetPrNum gh = Panicked (AtoiFailed s)) \<and>
   (\<forall>s n. InstallationID gh = Some s \<and> Atoi s = Some n \<longrightarrow> GetAppInstID gh = Value n) \<and>
   (\<forall>s. InstallationID gh = Some s \<and> Atoi s = None \<longrightarrow> GetAppInstID gh = Panicked (AtoiFailed s)) \<and>
   (\<forall>s n. IntegrationID gh = Some s \<and> Atoi s = Some n \<longrightarrow> GetAppIntID gh = Value n) \<and>
   (\<forall>s. IntegrationID gh = Some s \<and> Atoi s = None \<longrightarrow> GetAppIntID gh = Panicked (AtoiFailed s)) \<and>
   (\<forall>n. n < 2 ^ 63 \<and> PrNum gh = Some (decimal n) \<longrightarrow> GetPrNum gh = Value (int n)) \<and>
   (\<forall>n. n < 2 ^ 63 \<and> InstallationID gh = Some (decimal n) \<longrightarrow> GetAppInstID gh = Value (int n)) \<and>
   (\<forall>n. n < 2 ^ 63 \<and> IntegrationID gh = Some (decimal n) \<longrightarrow> GetAppIntID gh = Value (int n))"
proof -
  have a: "(\<forall>s n. PrNum gh = Some s \<and> Atoi s = Some n \<longrightarrow> GetPrNum gh = Value n) \<and>
   (\<forall>s. PrNum gh = Some s \<and> Atoi s = None \<longrightarrow> GetPrNum gh = Panicked (AtoiFailed s)) \<and>
   (\<forall>s n. InstallationID gh = Some s \<and> Atoi s = Some n \<longrightarrow> GetAppInstID gh = Value n) \<and>
   (\<forall>s. InstallationID gh = Some s \<and> Atoi s = None \<longrightarrow> GetAppInstID gh = Panicked (AtoiFailed s)) \<and>
   (\<forall>s n. IntegrationID gh = Some s \<and> Atoi s = Some n \<longrightarrow> GetAppIntID gh = Value n) \<and>
   (\<forall>s. IntegrationID gh = Some s \<and> Atoi s = None \<longrightarrow> GetAppIntID gh = Panicked (AtoiFailed s))"
    by (simp add: GetPrNum_def GetAppInstID_def GetAppIntID_def)
  have b: "\<forall>n. n < 2 ^ 63 \<and> PrNum gh = Some (decimal n) \<longrightarrow> GetPrNum gh = Value (int n)"
    using a Atoi_decimal by blast
  have c: "\<forall>n. n < 2 ^ 63 \<and> InstallationID gh = Some (decimal n) \<longrightarrow> GetAppInstID gh = Value (int n)"
    using a Atoi_decimal by blast
  have d: "\<forall>n. n < 2 ^ 63 \<and> IntegrationID gh = Some (decimal n) \<longrightarrow> GetAppIntID gh = Value (int n)"
    using a Atoi_decimal by blast
  from a b c d show ?thesis by blast
qed

theorem numeric_accessors_witness:
  "GetPrNum example_gh = Value 42 \<and>
   GetPrNum (example_gh\<lparr>PrNum := Some ''4x2''\<rparr>) = Panicked (AtoiFailed ''4x2'') \<and>
   GetAppInstID (example_gh\<lparr>InstallationID := Some ''42''\<rparr>) = Value 42 \<and>
   GetAppInstID (example_gh\<lparr>InstallationID := Some ''4x2''\<rparr>) = Panicked (AtoiFailed ''4x2'') \<and>
   GetAppIntID (example_gh\<lparr>IntegrationID := Some ''42''\<rparr>) = Value 42 \<and>
   GetAppIntID (example_gh\<lparr>IntegrationID := Some ''4x2''\<rparr>) = Panicked (AtoiFailed ''4x2'') \<and>
   GetPrNum (example_gh\<lparr>PrNum := Some (decimal 7)\<rparr>) = Value 7 \<and>
   GetAppInstID (example_gh\<lparr>InstallationID := Some (decimal 7)\<rparr>) = Value 7 \<and>
   GetAppIntID (example_gh\<lparr>IntegrationID := Some (decimal 7)\<rparr>) = Value 7"
proof -
  have p: "PrNum example_gh = Some ''42''"
    by (simp add: example_gh_def)
  have s: "(7::nat) < 2 ^ 63"
    by simp
  have "GetPrNum (example_gh\<lparr>PrNum := Some (decimal 7)\<rparr>) = Value (int 7)"
    using numeric_accessors [of "example_gh\<lparr>PrNum := Some (decimal 7)\<rparr>"] s by simp
  then have q: "GetPrNum (example_gh\<lparr>PrNum := Some (decimal 7)\<rparr>) = Value 7"
    by simp
  have "GetAppInstID (example_gh\<lparr>InstallationID := Some (decimal 7)\<rparr>) = Value (int 7)"
    using numeric_accessors [of "example_gh\<lparr>InstallationID := Some (decimal 7)\<rparr>"] s by simp
  then have q2: "GetAppInstID (example_gh\<lparr>InstallationID := Some (decimal 7)\<rparr>) = Value 7"
    by simp
  have "GetAppIntID (example_gh\<lparr>IntegrationID := Some (decimal 7)\<rparr>) = Value (int 7)"
    using numeric_accessors [of "example_gh\<lparr>IntegrationID := Some (decimal 7)\<rparr>"] s by simp
  then have q3: "GetAppIntID (example_gh\<lparr>IntegrationID := Some (decimal 7)\<rparr>) = Value 7"
    by simp
  have "GetPrNum example_gh = Value 42 \<and>
   GetPrNum (example_gh\<lparr>PrNum := Some ''4x2''\<rparr>) = Panicked (AtoiFailed ''4x2'') \<and>
   GetAppInstID (example_gh\<lparr>InstallationID := Some ''42''\<rparr>) = Value 42 \<and>
   GetAppInstID (example_gh\<lparr>InstallationID := Some ''4x2''\<rparr>) = Panicked (AtoiFailed ''4x2'') \<and>
   GetAppIntID (example_gh\<lparr>IntegrationID := Some ''42''\<rparr>) = Value 42 \<and>
   GetAppIntID (example_gh\<lparr>IntegrationID := Some ''4x2''\<rparr>) = Panicked (AtoiFailed ''4x2'')"
    using numeric_accessors [of example_gh] numeric_accessors [of "example_gh\<lparr>PrNum := Some ''4x2''\<rparr>"]
      numeric_accessors [of "example_gh\<lparr>InstallationID := Some ''42''\<rparr>"]
      numeric_accessors [of "example_gh\<lparr>InstallationID := Some ''4x2''\<rparr>"]
      numeric_accessors [of "example_gh\<lparr>IntegrationID := Some ''42''\<rparr>"]
      numeric_accessors [of "example_gh\<lparr>IntegrationID := Some ''4x2''\<rparr>"]
      p Atoi_examples(3) Atoi_4x2
    by simp
  with q q2 q3 show ?thesis by blast
qed

section \<open>Check runs\<close>

subsection \<open>Locating the active check run\<close>

lemma SetActiveCheckRun_failure_keeps:
  "fst (SetActiveCheckRun e gh w) \<noteq> Return None \<Longrightarrow> fst (snd (SetActiveCheckRun e gh w)) = gh"
  by (simp add: SetActiveCheckRun_def Let_def
      split: option.splits result.splits list.splits if_splits)

text \<open>
  C2. When the host answers the listing with a list of check runs, SetActiveCheckRun fails with
  ErrorNoActiveCheckRunsFound exactly when the list is empty or its first entry has a non-empty
  conclusion; otherwise it succeeds and the first entry becomes the active check run. Whenever
  it does not succeed, the Integration is as it was, so no active check run is installed.
\<close>

theorem SetActiveCheckRun_active_iff:
  assumes "Client gh = Some c" and "RepoOwner gh = Some owner" and "RepoName gh = Some repo"
    and "PR gh = Some pr" and "CheckRunName gh = Some name"
    and "Checks_ListCheckRunsForRef e c owner repo (GetRef (Head pr))
           \<lparr>CheckName = Some name, Filter = Some ''latest''\<rparr> = (Some lr, None)"
  shows "(fst (SetActiveCheckRun e gh w) = Return (Some (ErrorsNew ''ErrorNoActiveCheckRunsFound''))
            \<longleftrightarrow> CheckRuns lr = [] \<or> (\<exists>cr rest. CheckRuns lr = cr # rest \<and> GetConclusion cr \<noteq> [])) \<and>
         (\<forall>cr rest. CheckRuns lr = cr # rest \<and> GetConclusion cr = [] \<longrightarrow>
            fst (SetActiveCheckRun e gh w) = Return None \<and>
            fst (snd (SetActiveCheckRun e gh w)) = gh\<lparr>ActiveCheckRun := cr\<rparr>) \<and>
         (fst (SetActiveCheckRun e gh w) \<noteq> Return None \<longrightarrow>
            fst (snd (SetActiveCheckRun e gh w)) = gh)"
proof -
  have c1: "fst (SetActiveCheckRun e gh w) = Return (Some (ErrorsNew ''ErrorNoActiveCheckRunsFound''))
            \<longleftrightarrow> CheckRuns lr = [] \<or> (\<exists>cr rest. CheckRuns lr = cr # rest \<and> GetConclusion cr \<noteq> [])"
    using assms
    by (simp add: SetActiveCheckRun_def GetOwner_def GetRepo_def GetCheckRunName_def Let_def
        split: list.splits)
  have c2: "\<forall>cr rest. CheckRuns lr = cr # rest \<and> GetConclusion cr = [] \<longrightarrow>
            fst (SetActiveCheckRun e gh w) = Return None \<and>
            fst (snd (SetActiveCheckRun e gh w)) = gh\<lparr>ActiveCheckRun := cr\<rparr>"
    using assms
    by (simp add: SetActiveCheckRun_def GetOwner_def GetRepo_def GetCheckRunName_def Let_def)
  have c3: "fst (SetActiveCheckRun e gh w) \<noteq> Return None \<longrightarrow>
            fst (snd (SetActiveCheckRun e gh w)) = gh"
    using SetActiveCheckRun_failure_keeps [of e gh w] by blast
  show ?thesis
    by (intro conjI) (rule c1, rule c2, rule c3)
qed

theorem SetActiveCheckRun_active_iff_witness:
  "fst (SetActiveCheckRun example_env example_gh empty_world) = Return None \<and>
   fst (snd (SetActiveCheckRun example_env example_gh empty_world)) =
     example_gh\<lparr>ActiveCheckRun := Some example_run\<rparr> \<and>
   fst (SetActiveCheckRun concluded_env example_gh empty_world) =
     Return (Some (ErrorsNew ''ErrorNoActiveCheckRunsFound'')) \<and>
   fst (snd (SetActiveCheckRun concluded_env example_gh empty_world)) = example_gh \<and>
   fst (SetActiveCheckRun no_runs_env example_gh empty_world) =
     Return (Some (ErrorsNew ''ErrorNoActiveCheckRunsFound'')) \<and>
   fst (snd (SetActiveCheckRun no_runs_env example_gh empty_world)) = example_gh"
proof -
  note pre = example_gh_fields(1) example_gh_fields(2) example_gh_fields(3) example_gh_fields(4)
    example_gh_fields(5)
  have r1: "Checks_ListCheckRunsForRef example_env example_client ''owner'' ''repo''
      (GetRef (Head example_pr)) \<lparr>CheckName = Some ''sim'', Filter = Some ''latest''\<rparr> =
      (Some \<lparr>Total = Some 1, CheckRuns = [Some example_run]\<rparr>, None)"
    by (simp add: example_env_def)
  have r2: "Checks_ListCheckRunsForRef concluded_env example_client ''owner'' ''repo''
      (GetRef (Head example_pr)) \<lparr>CheckName = Some ''sim'', Filter = Some ''latest''\<rparr> =
      (Some \<lparr>Total = Some 1,
             CheckRuns = [Some (example_run\<lparr>CheckRun_Conclusion := Some ''success''\<rparr>)]\<rparr>, None)"
    by (simp add: concluded_env_def example_env_def)
  have r3: "Checks_ListCheckRunsForRef no_runs_env example_client ''owner'' ''repo''
      (GetRef (Head example_pr)) \<lparr>CheckName = Some ''sim'', Filter = Some ''latest''\<rparr> =
      (Some \<lparr>Total = Some 0, CheckRuns = []\<rparr>, None)"
    by (simp add: no_runs_env_def example_env_def)
  have c1: "GetConclusion (Some example_run) = []"
    by (simp add: GetConclusion_def example_run_def)
  have c2: "GetConclusion (Some (example_run\<lparr>CheckRun_Conclusion := Some ''success''\<rparr>)) \<noteq> []"
    by (simp add: GetConclusion_def)
  from SetActiveCheckRun_active_iff [OF pre r1, of empty_world] c1
  have a: "fst (SetActiveCheckRun example_env example_gh empty_world) = Return None \<and>
   fst (snd (SetActiveCheckRun example_env example_gh empty_world)) =
     example_gh\<lparr>ActiveCheckRun := Some example_run\<rparr>"
    by simp
  from SetActiveCheckRun_active_iff [OF pre r2, of empty_world] c2
  have b: "fst (SetActiveCheckRun concluded_env example_gh empty_world) =
     Return (Some (ErrorsNew ''ErrorNoActiveCheckRunsFound'')) \<and>
   fst (snd (SetActiveCheckRun concluded_env example_gh empty_world)) = example_gh"
    by simp
  from SetActiveCheckRun_active_iff [OF pre r3, of empty_world]
  have c: "fst (SetActiveCheckRun no_runs_env example_gh empty_world) =
     Return (Some (ErrorsNew ''ErrorNoActiveCheckRunsFound'')) \<and>
   fst (snd (SetActiveCheckRun no_runs_env example_gh empty_world)) = example_gh"
    by simp
  from a b c show ?thesis by blast
qed

subsection \<open>The payload of the updates\<close>

text \<open>
  C5. On an Integration with a client, an owner and a repository, ConcludeCheckRun makes one
  update call, for the active check run's id, whose options carry the status ``completed'', a
  completion time that is set (the current time), the given conclusion and, under the title
  ``Details'', the given summary, both as passed in.
\<close>

theorem ConcludeCheckRun_payload:
  assumes "Client gh = Some c" and "RepoOwner gh = Some owner" and "RepoName gh = Some repo"
  shows "\<exists>opt. calls (snd (snd (ConcludeCheckRun e summary conclusion gh w))) =
                 calls w @ [ChecksUpdateCheckRun c owner repo (GetID (ActiveCheckRun gh)) opt] \<and>
               Update_Status opt = Some ''completed'' \<and>
               Update_CompletedAt opt = Some (time_Now e) \<and>
               Update_Conclusion opt = conclusion \<and>
               Update_Output opt = Some \<lparr>Title = Some ''Details'', Summary = summary\<rparr> \<and>
               Update_Name opt = GetName (ActiveCheckRun gh) \<and>
               fst (ConcludeCheckRun e summary conclusion gh w) =
                 Return (snd (Checks_UpdateCheckRun e c owner repo (GetID (ActiveCheckRun gh)) opt))"
  using assms
  by (simp add: ConcludeCheckRun_def GetOwner_def GetRepo_def record_call_def Let_def)

theorem ConcludeCheckRun_payload_witness:
  "\<exists>opt. calls (snd (snd (ConcludeCheckRun example_env (Some ''log'') (Some ''success'') example_gh empty_world))) =
           [ChecksUpdateCheckRun example_client ''owner'' ''repo'' 7 opt] \<and>
         Update_Status opt = Some ''completed'' \<and>
         Update_CompletedAt opt = Some 1700000000 \<and>
         Update_Conclusion opt = Some ''success'' \<and>
         Update_Output opt = Some \<lparr>Title = Some ''Details'', Summary = Some ''log''\<rparr>"
proof -
  have i: "GetID (ActiveCheckRun example_gh) = 7" "calls empty_world = []"
    "time_Now example_env = 1700000000"
    by (simp_all add: GetID_def example_gh_def example_run_def empty_world_def example_env_def)
  from ConcludeCheckRun_payload [OF example_gh_fields(1) example_gh_fields(2) example_gh_fields(3),
      of example_env "Some ''log''" "Some ''success''" empty_world]
  obtain opt where "calls (snd (snd (ConcludeCheckRun example_env (Some ''log'') (Some ''success'') example_gh empty_world))) =
           calls empty_world @ [ChecksUpdateCheckRun example_client ''owner'' ''repo'' (GetID (ActiveCheckRun example_gh)) opt]"
    and "Update_Status opt = Some ''completed''"
    and "Update_CompletedAt opt = Some (time_Now example_env)"
    and "Update_Conclusion opt = Some ''success''"
    and "Update_Output opt = Some \<lparr>Title = Some ''Details'', Summary = Some ''log''\<rparr>"
    by blast
  with i show ?thesis by auto
qed

text \<open>
  C6. On an Integration with a client, an owner, a repository and a pull request with a head,
  UpdateCheckRunStatus makes one update call whose options carry the head's branch and SHA as
  they are and the given status; a summary that is passed goes under the title ``Details'',
  and without a summary the options have no output.
\<close>

theorem UpdateCheckRunStatus_payload:
  assumes "Client gh = Some c" and "RepoOwner gh = Some owner" and "RepoName gh = Some repo"
    and "PR gh = Some pr" and "Head pr = Some head"
  shows "\<exists>opt. calls (snd (snd (UpdateCheckRunStatus e status summary gh w))) =
                 calls w @ [ChecksUpdateCheckRun c owner repo (GetID (ActiveCheckRun gh)) opt] \<and>
               Update_HeadBranch opt = Ref head \<and>
               Update_HeadSHA opt = SHA head \<and>
               Update_Status opt = status \<and>
               Update_Output opt =
                 (case summary of None \<Rightarrow> None
                  | Some s \<Rightarrow> Some \<lparr>Title = Some ''Details'', Summary = Some s\<rparr>) \<and>
               Update_Name opt = GetName (ActiveCheckRun gh) \<and>
               Update_Conclusion opt = None \<and> Update_CompletedAt opt = None"
  using assms
  by (simp add: UpdateCheckRunStatus_def GetOwner_def GetRepo_def record_call_def Let_def
      split: option.splits)

theorem UpdateCheckRunStatus_payload_witness:
  "(\<exists>opt. calls (snd (snd (UpdateCheckRunStatus example_env (Some ''in_progress'') (Some ''log'') example_gh empty_world))) =
           [ChecksUpdateCheckRun example_client ''owner'' ''repo'' 7 opt] \<and>
         Update_HeadBranch opt = Some ''feature'' \<and>
         Update_HeadSHA opt = Some ''abc123'' \<and>
         Update_Status opt = Some ''in_progress'' \<and>
         Update_Output opt = Some \<lparr>Title = Some ''Details'', Summary = Some ''log''\<rparr>) \<and>
   (\<exists>opt. calls (snd (snd (UpdateCheckRunStatus example_env (Some ''in_progress'') None example_gh empty_world))) =
           [ChecksUpdateCheckRun example_client ''owner'' ''repo'' 7 opt] \<and>
         Update_HeadBranch opt = Some ''feature'' \<and>
         Update_HeadSHA opt = Some ''abc123'' \<and>
         Update_Status opt = Some ''in_progress'' \<and>
         Update_Output opt = None)"
proof -
  have i: "GetID (ActiveCheckRun example_gh) = 7" "calls empty_world = []"
    by (simp_all add: GetID_def example_gh_def example_run_def empty_world_def)
  have h: "Head example_pr = Some \<lparr>Ref = Some ''feature'', SHA = Some ''abc123''\<rparr>"
    by (simp add: example_pr_def)
  note t = UpdateCheckRunStatus_payload [OF example_gh_fields(1) example_gh_fields(2)
      example_gh_fields(3) example_gh_fields(4) h, of example_env "Some ''in_progress''" _ empty_world]
  from t [of "Some ''log''"] i
  have a: "\<exists>opt. calls (snd (snd (UpdateCheckRunStatus example_env (Some ''in_progress'') (Some ''log'') example_gh empty_world))) =
           [ChecksUpdateCheckRun example_client ''owner'' ''repo'' 7 opt] \<and>
         Update_HeadBranch opt = Some ''feature'' \<and>
         Update_HeadSHA opt = Some ''abc123'' \<and>
         Update_Status opt = Some ''in_progress'' \<and>
         Update_Output opt = Some \<lparr>Title = Some ''Details'', Summary = Some ''log''\<rparr>"
    by auto
  from t [of None] i
  have b: "\<exists>opt. calls (snd (snd (UpdateCheckRunStatus example_env (Some ''in_progress'') None example_gh empty_world))) =
           [ChecksUpdateCheckRun example_client ''owner'' ''repo'' 7 opt] \<and>
         Update_HeadBranch opt = Some ''feature'' \<and>
         Update_HeadSHA opt = Some ''abc123'' \<and>
         Update_Status opt = Some ''in_progress'' \<and>
         Update_Output opt = None"
    by auto
  from a b show ?thesis by blast
qed

subsection \<open>What a check-run operation changes\<close>

lemma SetActiveCheckRun_frame:
  "\<exists>a. fst (snd (SetActiveCheckRun e gh w)) = gh\<lparr>ActiveCheckRun := a\<rparr>"
proof (cases "fst (SetActiveCheckRun e gh w) = Return None")
  case True
  then show ?thesis
    by (auto simp: SetActiveCheckRun_def Let_def
        split: option.splits result.splits list.splits if_splits)
next
  case False
  then have "fst (snd (SetActiveCheckRun e gh w)) = gh"
    by (simp add: SetActiveCheckRun_def Let_def
      split: option.splits result.splits list.splits if_splits)
  then have "fst (snd (SetActiveCheckRun e gh w)) = gh\<lparr>ActiveCheckRun := ActiveCheckRun gh\<rparr>"
    by simp
  then show ?thesis ..
qed

lemma same_record: "(gh :: Integration) = gh\<lparr>ActiveCheckRun := ActiveCheckRun gh\<rparr>"
  by simp

lemma UpdateActiveCheckRun_frame:
  "\<exists>a. fst (snd (UpdateActiveCheckRun e gh w)) = gh\<lparr>ActiveCheckRun := a\<rparr>"
  by (auto simp: UpdateActiveCheckRun_def Let_def intro: same_record
        split: option.splits result.splits)

lemma ConcludeCheckRun_frame:
  "\<exists>a. fst (snd (ConcludeCheckRun e s c gh w)) = gh\<lparr>ActiveCheckRun := a\<rparr>"
  by (auto simp: ConcludeCheckRun_def Let_def intro: same_record
        split: option.splits result.splits)

lemma UpdateCheckRunStatus_frame:
  "\<exists>a. fst (snd (UpdateCheckRunStatus e st s gh w)) = gh\<lparr>ActiveCheckRun := a\<rparr>"
  by (auto simp: UpdateCheckRunStatus_def Let_def intro: same_record
        split: option.splits result.splits)

lemma CreateNewCheckRun_frame:
  "\<exists>a n. fst (snd (CreateNewCheckRun e gh w)) = gh\<lparr>ActiveCheckRun := a, CheckRunName := n\<rparr>"
proof -
  have triv: "gh = gh\<lparr>ActiveCheckRun := ActiveCheckRun gh, CheckRunName := CheckRunName gh\<rparr>"
    by simp
  have upd: "\<And>a. gh\<lparr>ActiveCheckRun := a\<rparr> = gh\<lparr>ActiveCheckRun := a, CheckRunName := CheckRunName gh\<rparr>"
    by simp
  show ?thesis
    by (auto simp: CreateNewCheckRun_def Let_def intro: triv upd
        split: option.splits result.splits)
qed

lemma CreateNewCheckRun_name:
  "(fst (CreateNewCheckRun e gh w) = Return None \<longrightarrow>
      (\<exists>cr. ActiveCheckRun (fst (snd (CreateNewCheckRun e gh w))) = Some cr \<and>
            CheckRunName (fst (snd (CreateNewCheckRun e gh w))) = CheckRun_Name cr)) \<and>
   (fst (CreateNewCheckRun e gh w) \<noteq> Return None \<longrightarrow>
      CheckRunName (fst (snd (CreateNewCheckRun e gh w))) = CheckRunName gh)"
  by (auto simp: CreateNewCheckRun_def Let_def split: option.splits result.splits)

text \<open>
  C9, as stated, fails: CreateNewCheckRun also assigns \<open>CheckRunName\<close>, from the name in
  the host's answer. With a host that answers under another name the field changes.
\<close>

theorem check_run_frame_counterexample:
  "fst (CreateNewCheckRun renaming_env example_gh empty_world) = Return None \<and>
   CheckRunName example_gh = Some ''sim'' \<and>
   CheckRunName (fst (snd (CreateNewCheckRun renaming_env example_gh empty_world))) = Some ''renamed''"
  by (simp add: CreateNewCheckRun_def renaming_env_def example_env_def example_gh_def
      example_client_def example_pr_def GetCheckRunName_def GetOwner_def GetRepo_def
      GetRef_def GetSHA_def Let_def)

text \<open>
  C9, amended. SetActiveCheckRun, UpdateActiveCheckRun, UpdateCheckRunStatus and
  ConcludeCheckRun change no field but \<open>ActiveCheckRun\<close>. CreateNewCheckRun changes no field
  but \<open>ActiveCheckRun\<close> and \<open>CheckRunName\<close>: when it succeeds the name is the one of the check
  run the host returned, and otherwise the name is as it was. In every case the integration
  type, the installation and application ids, the owner, the repository, the pull request
  number, the client and the pull request stay as they were.
\<close>

theorem check_run_frame:
  "(\<exists>a. fst (snd (SetActiveCheckRun e gh w)) = gh\<lparr>ActiveCheckRun := a\<rparr>) \<and>
   (\<exists>a. fst (snd (UpdateActiveCheckRun e gh w)) = gh\<lparr>ActiveCheckRun := a\<rparr>) \<and>
   (\<exists>a. fst (snd (UpdateCheckRunStatus e status summary gh w)) = gh\<lparr>ActiveCheckRun := a\<rparr>) \<and>
   (\<exists>a. fst (snd (ConcludeCheckRun e summary conclusion gh w)) = gh\<lparr>ActiveCheckRun := a\<rparr>) \<and>
   (\<exists>a n. fst (snd (CreateNewCheckRun e gh w)) = gh\<lparr>ActiveCheckRun := a, CheckRunName := n\<rparr>) \<and>
   (fst (CreateNewCheckRun e gh w) = Return None \<longrightarrow>
      (\<exists>cr. ActiveCheckRun (fst (snd (CreateNewCheckRun e gh w))) = Some cr \<and>
            CheckRunName (fst (snd (CreateNewCheckRun e gh w))) = CheckRun_Name cr)) \<and>
   (fst (CreateNewCheckRun e gh w) \<noteq> Return None \<longrightarrow>
      CheckRunName (fst (snd (CreateNewCheckRun e gh w))) = CheckRunName gh)"
  using SetActiveCheckRun_frame [of e gh w] UpdateActiveCheckRun_frame [of e gh w]
    UpdateCheckRunStatus_frame [of e status summary gh w]
    ConcludeCheckRun_frame [of e summary conclusion gh w]
    CreateNewCheckRun_frame [of e gh w] CreateNewCheckRun_name [of e gh w]
  by blast

theorem check_run_frame_witness:
  "(\<exists>cr. ActiveCheckRun (fst (snd (CreateNewCheckRun example_env example_gh empty_world))) = Some cr \<and>
         CheckRunName (fst (snd (CreateNewCheckRun example_env example_gh empty_world))) =
           CheckRun_Name cr) \<and>
   CheckRunName (fst (snd (CreateNewCheckRun example_env (example_gh\<lparr>Client := None\<rparr>) empty_world))) =
     Some ''sim''"
proof -
  have n: "CheckRunName (example_gh\<lparr>Client := None\<rparr>) = Some ''sim''"
    by (simp add: example_gh_def)
  from check_run_frame [of example_env example_gh empty_world] create_example_ok
  have a: "\<exists>cr. ActiveCheckRun (fst (snd (CreateNewCheckRun example_env example_gh empty_world))) = Some cr \<and>
         CheckRunName (fst (snd (CreateNewCheckRun example_env example_gh empty_world))) =
           CheckRun_Name cr"
    by blast
  from check_run_frame [of example_env "example_gh\<lparr>Client := None\<rparr>" empty_world] create_example_fail
  have "CheckRunName (fst (snd (CreateNewCheckRun example_env (example_gh\<lparr>Client := None\<rparr>) empty_world))) =
     CheckRunName (example_gh\<lparr>Client := None\<rparr>)"
    by blast
  with n a show ?thesis by simp
qed

subsection \<open>Failed remote calls\<close>

text \<open>
  C10. When the remote call of UpdateActiveCheckRun, ConcludeCheckRun or UpdateCheckRunStatus
  answers with an error, the operation returns that error and \<open>ActiveCheckRun\<close> is the
  pointer that came with the error (possibly nil), not the snapshot held before.
\<close>

theorem failed_update_overwrites:
  assumes "Client gh = Some c" and "RepoOwner gh = Some owner" and "RepoName gh = Some repo"
  shows
   "(\<forall>cr err. Checks_GetCheckRun e c owner repo (GetID (ActiveCheckRun gh)) = (cr, Some err) \<longrightarrow>
        fst (UpdateActiveCheckRun e gh w) = Return (Some err) \<and>
        ActiveCheckRun (fst (snd (UpdateActiveCheckRun e gh w))) = cr) \<and>
    (\<exists>opt. calls (snd (snd (ConcludeCheckRun e summary conclusion gh w))) =
              calls w @ [ChecksUpdateCheckRun c owner repo (GetID (ActiveCheckRun gh)) opt] \<and>
       (\<forall>cr err. Checks_UpdateCheckRun e c owner repo (GetID (ActiveCheckRun gh)) opt = (cr, Some err) \<longrightarrow>
          fst (ConcludeCheckRun e summary conclusion gh w) = Return (Some err) \<and>
          ActiveCheckRun (fst (snd (ConcludeCheckRun e summary conclusion gh w))) = cr)) \<and>
    (\<forall>pr head. PR gh = Some pr \<and> Head pr = Some head \<longrightarrow>
      (\<exists>opt. calls (snd (snd (UpdateCheckRunStatus e status summary gh w))) =
              calls w @ [ChecksUpdateCheckRun c owner repo (GetID (ActiveCheckRun gh)) opt] \<and>
       (\<forall>cr err. Checks_UpdateCheckRun e c owner repo (GetID (ActiveCheckRun gh)) opt = (cr, Some err) \<longrightarrow>
          fst (UpdateCheckRunStatus e status summary gh w) = Return (Some err) \<and>
          ActiveCheckRun (fst (snd (UpdateCheckRunStatus e status summary gh w))) = cr)))"
proof (intro conjI)
  show "\<forall>cr err. Checks_GetCheckRun e c owner repo (GetID (ActiveCheckRun gh)) = (cr, Some err) \<longrightarrow>
        fst (UpdateActiveCheckRun e gh w) = Return (Some err) \<and>
        ActiveCheckRun (fst (snd (UpdateActiveCheckRun e gh w))) = cr"
    using assms by (simp add: UpdateActiveCheckRun_def GetOwner_def GetRepo_def Let_def)
next
  show "\<exists>opt. calls (snd (snd (ConcludeCheckRun e summary conclusion gh w))) =
              calls w @ [ChecksUpdateCheckRun c owner repo (GetID (ActiveCheckRun gh)) opt] \<and>
       (\<forall>cr err. Checks_UpdateCheckRun e c owner repo (GetID (ActiveCheckRun gh)) opt = (cr, Some err) \<longrightarrow>
          fst (ConcludeCheckRun e summary conclusion gh w) = Return (Some err) \<and>
          ActiveCheckRun (fst (snd (ConcludeCheckRun e summary conclusion gh w))) = cr)"
    using assms
    by (simp add: ConcludeCheckRun_def GetOwner_def GetRepo_def record_call_def Let_def)
next
  show "\<forall>pr head. PR gh = Some pr \<and> Head pr = Some head \<longrightarrow>
      (\<exists>opt. calls (snd (snd (UpdateCheckRunStatus e status summary gh w))) =
              calls w @ [ChecksUpdateCheckRun c owner repo (GetID (ActiveCheckRun gh)) opt] \<and>
       (\<forall>cr err. Checks_UpdateCheckRun e c owner repo (GetID (ActiveCheckRun gh)) opt = (cr, Some err) \<longrightarrow>
          fst (UpdateCheckRunStatus e status summary gh w) = Return (Some err) \<and>
          ActiveCheckRun (fst (snd (UpdateCheckRunStatus e status summary gh w))) = cr))"
    using assms
    by (simp add: UpdateCheckRunStatus_def GetOwner_def GetRepo_def record_call_def Let_def)
qed

theorem failed_update_overwrites_witness:
  "ActiveCheckRun example_gh = Some example_run \<and>
   fst (UpdateActiveCheckRun failing_env example_gh empty_world) = Return (Some (LibError ''502 Bad Gateway'')) \<and>
   ActiveCheckRun (fst (snd (UpdateActiveCheckRun failing_env example_gh empty_world))) = None \<and>
   fst (ConcludeCheckRun failing_env (Some ''log'') (Some ''failure'') example_gh empty_world) =
     Return (Some (LibError ''502 Bad Gateway'')) \<and>
   ActiveCheckRun (fst (snd (ConcludeCheckRun failing_env (Some ''log'') (Some ''failure'') example_gh empty_world))) = None \<and>
   fst (UpdateCheckRunStatus failing_env (Some ''in_progress'') (Some ''log'') example_gh empty_world) =
     Return (Some (LibError ''502 Bad Gateway'')) \<and>
   ActiveCheckRun (fst (snd (UpdateCheckRunStatus failing_env (Some ''in_progress'') (Some ''log'') example_gh empty_world))) = None"
proof -
  have pre: "Client example_gh = Some example_client" "RepoOwner example_gh = Some ''owner''"
    "RepoName example_gh = Some ''repo''" "ActiveCheckRun example_gh = Some example_run"
    "PR example_gh = Some example_pr \<and>
     Head example_pr = Some \<lparr>Ref = Some ''feature'', SHA = Some ''abc123''\<rparr>"
    by (simp_all add: example_gh_def example_pr_def)
  have g: "\<And>a b c d. Checks_GetCheckRun failing_env a b c d = (None, Some (LibError ''502 Bad Gateway''))"
    by (simp add: failing_env_def example_env_def)
  have u: "\<And>a b c d opt. Checks_UpdateCheckRun failing_env a b c d opt = (None, Some (LibError ''502 Bad Gateway''))"
    by (simp add: failing_env_def example_env_def)
  from failed_update_overwrites [OF pre(1) pre(2) pre(3), where e = failing_env
      and w = empty_world and summary = "Some ''log''" and conclusion = "Some ''failure''"
      and status = "Some ''in_progress''"] g u pre(4) pre(5)
  show ?thesis by blast
qed

section \<open>Construction\<close>

subsection \<open>The authentication sequence\<close>

lemma authenticate_calls:
  "\<exists>rest. calls (snd (snd (authenticate e r k gh w))) = calls w @ rest \<and> list_all is_auth_call rest"
  by (simp add: authenticate_def record_call_def Let_def
      split: sum.splits result.splits)

lemma authenticate_tables:
  "tables (snd (snd (authenticate e r k gh w))) = tables w"
  by (simp add: authenticate_def record_call_def Let_def
      split: sum.splits result.splits)

lemma authenticate_item:
  "item_of (fst (snd (authenticate e r k gh w))) = item_of gh"
  by (simp add: authenticate_def item_of_def Let_def
      split: sum.splits result.splits)

lemma authenticate_secret_fails:
  "Ssm_GetParameter e (Ssm_Config r) k = Inl err \<Longrightarrow>
   fst (authenticate e r k gh w) = Return (Some err) \<and> fst (snd (authenticate e r k gh w)) = gh"
  by (simp add: authenticate_def Let_def)

lemma authenticate_ghapp_fails:
  "Ssm_GetParameter e (Ssm_Config r) k = Inr key \<Longrightarrow> GetAppIntID gh = Value a \<Longrightarrow>
   GetAppInstID gh = Value i \<Longrightarrow> ghapp_New e a i key = Inl err \<Longrightarrow>
   fst (authenticate e r k gh w) = Return (Some err) \<and> fst (snd (authenticate e r k gh w)) = gh"
  by (simp add: authenticate_def Let_def)

lemma authenticate_fetch:
  "Ssm_GetParameter e (Ssm_Config r) k = Inr key \<Longrightarrow> GetAppIntID gh = Value a \<Longrightarrow>
   GetAppInstID gh = Value i \<Longrightarrow> ghapp_New e a i key = Inr tr \<Longrightarrow>
   GetOwner gh = Value ow \<Longrightarrow> GetRepo gh = Value rp \<Longrightarrow> GetPrNum gh = Value n \<Longrightarrow>
   fst (authenticate e r k gh w) = Return (snd (PullRequests_Get e (GithubClient tr) ow rp n)) \<and>
   fst (snd (authenticate e r k gh w)) =
     gh\<lparr>Client := Some (GithubClient tr), PR := fst (PullRequests_Get e (GithubClient tr) ow rp n)\<rparr>"
  by (simp add: authenticate_def Let_def GetOwner_def GetRepo_def GetPrNum_def)

lemma GetState_client:
  "Client (fst (snd (GetState e t key gh w))) = Client gh"
  by (simp add: GetState_def load_item_def Let_def split: option.splits)

lemma ConfigFromState_cases:
  assumes "GetState e (DdbTable_Config awsRegion primaryKey tableName) ''GitHub''
             (gh\<lparr>State := Some (DdbTable_Config awsRegion primaryKey tableName)\<rparr>) w = (r, gh2, w1)"
  shows "ConfigFromState e awsRegion keyID gh w =
           (case r of
              Some err \<Rightarrow> (Return (Some err), gh2, w1)
            | None \<Rightarrow>
                (case ValidateState gh2 of
                   Some err \<Rightarrow> (Return (Some err), gh2, w1)
                 | None \<Rightarrow> authenticate e awsRegion keyID gh2 w1))"
  using assms unfolding ConfigFromState_def authenticate_def Let_def by (simp split: option.splits)

lemma ConfigFromScratch_cases:
  assumes "PutState e (DdbTable_Config awsRegion primaryKey tableName) gh1 w = (r, w1)"
    and "gh1 = gh\<lparr>RepoOwner := Some repoOwner, RepoName := Some repoName,
                   CheckRunName := Some checkRunName, InstallationID := Some installationID,
                   IntegrationID := Some integrationID, PrNum := Some prNum,
                   IntegrationType := Some ''GitHub'',
                   State := Some (DdbTable_Config awsRegion primaryKey tableName)\<rparr>"
  shows "ConfigFromScratch e awsRegion privateKeyID repoOwner repoName checkRunName installationID
           integrationID prNum gh w =
           (case r of
              Some err \<Rightarrow> (Return (Some err), gh1, w1)
            | None \<Rightarrow> authenticate e awsRegion privateKeyID gh1 w1)"
  using assms(1) unfolding assms(2) ConfigFromScratch_def authenticate_def Let_def
  by (simp split: option.splits)

subsection \<open>Write first, then authenticate\<close>

text \<open>
  C3. For every input, the first call ConfigFromScratch makes is the write of the Integration
  with the given fields and the integration type ``GitHub'' to the state store, and every call
  after it belongs to the authentication sequence. If the write fails, the error is returned
  with no further call made (no secret retrieved, no transport built) and the client field as
  it was.
\<close>

theorem ConfigFromScratch_writes_first:
  "let t = DdbTable_Config awsRegion primaryKey tableName;
       gh1 = gh\<lparr>RepoOwner := Some repoOwner, RepoName := Some repoName,
                CheckRunName := Some checkRunName, InstallationID := Some installationID,
                IntegrationID := Some integrationID, PrNum := Some prNum,
                IntegrationType := Some ''GitHub'', State := Some t\<rparr>;
       R = ConfigFromScratch e awsRegion privateKeyID repoOwner repoName checkRunName
             installationID integrationID prNum gh w
   in (\<exists>rest. calls (snd (snd R)) = calls w @ DdbPutState t gh1 # rest \<and>
               list_all is_auth_call rest) \<and>
      (\<forall>err. fst (PutState e t gh1 w) = Some err \<longrightarrow>
         fst R = Return (Some err) \<and>
         calls (snd (snd R)) = calls w @ [DdbPutState t gh1] \<and>
         Client (fst (snd R)) = Client gh)"
proof -
  define t where "t = DdbTable_Config awsRegion primaryKey tableName"
  define gh1 where "gh1 = gh\<lparr>RepoOwner := Some repoOwner, RepoName := Some repoName,
                CheckRunName := Some checkRunName, InstallationID := Some installationID,
                IntegrationID := Some integrationID, PrNum := Some prNum,
                IntegrationType := Some ''GitHub'', State := Some t\<rparr>"
  define R where "R = ConfigFromScratch e awsRegion privateKeyID repoOwner repoName checkRunName
             installationID integrationID prNum gh w"
  have R: "R = (case PutState e t gh1 w of
                  (Some err, w1) \<Rightarrow> (Return (Some err), gh1, w1)
                | (None, w1) \<Rightarrow> authenticate e awsRegion privateKeyID gh1 w1)"
    unfolding R_def ConfigFromScratch_def authenticate_def t_def gh1_def Let_def by (rule refl)
  have P: "calls (snd (PutState e t gh1 w)) = calls w @ [DdbPutState t gh1]"
    by (simp add: PutState_def record_call_def Let_def gh1_def split: option.splits)
  have a: "\<exists>rest. calls (snd (snd R)) = calls w @ DdbPutState t gh1 # rest \<and>
               list_all is_auth_call rest"
  proof (cases "fst (PutState e t gh1 w)")
    case None
    then have "R = authenticate e awsRegion privateKeyID gh1 (snd (PutState e t gh1 w))"
      by (auto simp add: R split: prod.splits)
    with authenticate_calls [of e awsRegion privateKeyID gh1 "snd (PutState e t gh1 w)"] P
    show ?thesis by auto
  next
    case (Some err)
    then have "R = (Return (Some err), gh1, snd (PutState e t gh1 w))"
      by (auto simp add: R split: prod.splits)
    with P show ?thesis by simp
  qed
  have b: "\<forall>err. fst (PutState e t gh1 w) = Some err \<longrightarrow>
         fst R = Return (Some err) \<and>
         calls (snd (snd R)) = calls w @ [DdbPutState t gh1] \<and>
         Client (fst (snd R)) = Client gh"
  proof (intro allI impI)
    fix err assume "fst (PutState e t gh1 w) = Some err"
    then have "R = (Return (Some err), gh1, snd (PutState e t gh1 w))"
      by (auto simp add: R split: prod.splits)
    with P show "fst R = Return (Some err) \<and>
         calls (snd (snd R)) = calls w @ [DdbPutState t gh1] \<and>
         Client (fst (snd R)) = Client gh"
      by (simp add: gh1_def)
  qed
  from a b show ?thesis
    unfolding Let_def t_def [symmetric] gh1_def [symmetric] R_def [symmetric] by blast
qed

theorem ConfigFromScratch_writes_first_witness:
  "fst (ConfigFromScratch store_down_env ''eu-west-1'' ''key-id'' ''owner'' ''repo'' ''sim''
          ''2'' ''1'' ''42'' blank_gh empty_world) = Return (Some (LibError ''store unreachable'')) \<and>
   calls (snd (snd (ConfigFromScratch store_down_env ''eu-west-1'' ''key-id'' ''owner'' ''repo''
          ''sim'' ''2'' ''1'' ''42'' blank_gh empty_world))) =
     [DdbPutState (DdbTable_Config ''eu-west-1'' primaryKey tableName)
        (blank_gh\<lparr>RepoOwner := Some ''owner'', RepoName := Some ''repo'',
                   CheckRunName := Some ''sim'', InstallationID := Some ''2'',
                   IntegrationID := Some ''1'', PrNum := Some ''42'',
                   IntegrationType := Some ''GitHub'',
                   State := Some (DdbTable_Config ''eu-west-1'' primaryKey tableName)\<rparr>)] \<and>
   Client (fst (snd (ConfigFromScratch store_down_env ''eu-west-1'' ''key-id'' ''owner'' ''repo''
          ''sim'' ''2'' ''1'' ''42'' blank_gh empty_world))) = None"
proof -
  have p: "fst (PutState store_down_env (DdbTable_Config ''eu-west-1'' primaryKey tableName)
        (blank_gh\<lparr>RepoOwner := Some ''owner'', RepoName := Some ''repo'',
                   CheckRunName := Some ''sim'', InstallationID := Some ''2'',
                   IntegrationID := Some ''1'', PrNum := Some ''42'',
                   IntegrationType := Some ''GitHub'',
                   State := Some (DdbTable_Config ''eu-west-1'' primaryKey tableName)\<rparr>) empty_world) =
       Some (LibError ''store unreachable'')"
    by (simp add: PutState_def store_down_env_def example_env_def Let_def)
  have c: "calls empty_world = []" "Client blank_gh = None"
    by (simp_all add: empty_world_def blank_gh_def)
  from ConfigFromScratch_writes_first [where e = store_down_env and awsRegion = "''eu-west-1''"
      and privateKeyID = "''key-id''" and repoOwner = "''owner''" and repoName = "''repo''"
      and checkRunName = "''sim''" and installationID = "''2''" and integrationID = "''1''"
      and prNum = "''42''" and gh = blank_gh and w = empty_world, unfolded Let_def] p c
  show ?thesis by simp
qed

subsection \<open>Failures and the client\<close>

text \<open>
  C4, as stated, fails for the last step: the client is installed before the pull request is
  fetched, so a failed fetch returns its error with the client in place.
\<close>

theorem construction_client_counterexample:
  "fst (ConfigFromScratch fetch_failing_env ''eu-west-1'' ''key-id'' ''owner'' ''repo'' ''sim''
          ''2'' ''1'' ''42'' blank_gh empty_world) = Return (Some (LibError ''404 Not Found'')) \<and>
   Client (fst (snd (ConfigFromScratch fetch_failing_env ''eu-west-1'' ''key-id'' ''owner'' ''repo''
          ''sim'' ''2'' ''1'' ''42'' blank_gh empty_world))) = Some (GithubClient (Transport 1 2 ''key''))"
  by (simp add: ConfigFromScratch_def PutState_def fetch_failing_env_def
      example_env_def blank_gh_def empty_world_def record_call_def Let_def
      GetAppIntID_def GetAppInstID_def GetPrNum_def GetOwner_def GetRepo_def Atoi_examples)

text \<open>
  C4, amended. In ConfigFromState a failure of the state load, of validation, of the secret
  retrieval or of building the transport returns that error and leaves the client field as it
  was; in ConfigFromScratch the same holds for the state write, the secret retrieval and the
  transport. In both, a failure of the pull request fetch returns that error with the newly
  built client installed.
\<close>

theorem construction_failure_and_client:
  "(let t = DdbTable_Config awsRegion primaryKey tableName;
        G = GetState e t ''GitHub'' (gh\<lparr>State := Some t\<rparr>) w;
        gh2 = fst (snd G);
        R = ConfigFromState e awsRegion keyID gh w
    in (\<forall>err. fst G = Some err \<longrightarrow>
          fst R = Return (Some err) \<and> Client (fst (snd R)) = Client gh) \<and>
       (\<forall>err. fst G = None \<and> ValidateState gh2 = Some err \<longrightarrow>
          fst R = Return (Some err) \<and> Client (fst (snd R)) = Client gh) \<and>
       (\<forall>err. fst G = None \<and> ValidateState gh2 = None \<and>
              Ssm_GetParameter e (Ssm_Config awsRegion) keyID = Inl err \<longrightarrow>
          fst R = Return (Some err) \<and> Client (fst (snd R)) = Client gh) \<and>
       (\<forall>err key a i. fst G = None \<and> ValidateState gh2 = None \<and>
              Ssm_GetParameter e (Ssm_Config awsRegion) keyID = Inr key \<and>
              GetAppIntID gh2 = Value a \<and> GetAppInstID gh2 = Value i \<and>
              ghapp_New e a i key = Inl err \<longrightarrow>
          fst R = Return (Some err) \<and> Client (fst (snd R)) = Client gh) \<and>
       (\<forall>err key a i tr ow rp n. fst G = None \<and> ValidateState gh2 = None \<and>
              Ssm_GetParameter e (Ssm_Config awsRegion) keyID = Inr key \<and>
              GetAppIntID gh2 = Value a \<and> GetAppInstID gh2 = Value i \<and>
              ghapp_New e a i key = Inr tr \<and>
              GetOwner gh2 = Value ow \<and> GetRepo gh2 = Value rp \<and> GetPrNum gh2 = Value n \<and>
              snd (PullRequests_Get e (GithubClient tr) ow rp n) = Some err \<longrightarrow>
          fst R = Return (Some err) \<and> Client (fst (snd R)) = Some (GithubClient tr))) \<and>
   (let t = DdbTable_Config awsRegion primaryKey tableName;
        gh1 = gh\<lparr>RepoOwner := Some repoOwner, RepoName := Some repoName,
                 CheckRunName := Some checkRunName, InstallationID := Some installationID,
                 IntegrationID := Some integrationID, PrNum := Some prNum,
                 IntegrationType := Some ''GitHub'', State := Some t\<rparr>;
        P = PutState e t gh1 w;
        R = ConfigFromScratch e awsRegion keyID repoOwner repoName checkRunName installationID
              integrationID prNum gh w
    in (\<forall>err. fst P = Some err \<longrightarrow>
          fst R = Return (Some err) \<and> Client (fst (snd R)) = Client gh) \<and>
       (\<forall>err. fst P = None \<and> Ssm_GetParameter e (Ssm_Config awsRegion) keyID = Inl err \<longrightarrow>
          fst R = Return (Some err) \<and> Client (fst (snd R)) = Client gh) \<and>
       (\<forall>err key a i. fst P = None \<and>
              Ssm_GetParameter e (Ssm_Config awsRegion) keyID = Inr key \<and>
              Atoi integrationID = Some a \<and> Atoi installationID = Some i \<and>
              ghapp_New e a i key = Inl err \<longrightarrow>
          fst R = Return (Some err) \<and> Client (fst (snd R)) = Client gh) \<and>
       (\<forall>err key a i tr n. fst P = None \<and>
              Ssm_GetParameter e (Ssm_Config awsRegion) keyID = Inr key \<and>
              Atoi integrationID = Some a \<and> Atoi installationID = Some i \<and>
              ghapp_New e a i key = Inr tr \<and> Atoi prNum = Some n \<and>
              snd (PullRequests_Get e (GithubClient tr) repoOwner repoName n) = Some err \<longrightarrow>
          fst R = Return (Some err) \<and> Client (fst (snd R)) = Some (GithubClient tr)))"
proof -
  define t where "t = DdbTable_Config awsRegion primaryKey tableName"
  define G where "G = GetState e t ''GitHub'' (gh\<lparr>State := Some t\<rparr>) w"
  define gh2 where "gh2 = fst (snd G)"
  define R where "R = ConfigFromState e awsRegion keyID gh w"
  define gh1 where "gh1 = gh\<lparr>RepoOwner := Some repoOwner, RepoName := Some repoName,
                 CheckRunName := Some checkRunName, InstallationID := Some installationID,
                 IntegrationID := Some integrationID, PrNum := Some prNum,
                 IntegrationType := Some ''GitHub'', State := Some t\<rparr>"
  define P where "P = PutState e t gh1 w"
  define S where "S = ConfigFromScratch e awsRegion keyID repoOwner repoName checkRunName
                        installationID integrationID prNum gh w"
  have G: "GetState e (DdbTable_Config awsRegion primaryKey tableName) ''GitHub''
             (gh\<lparr>State := Some (DdbTable_Config awsRegion primaryKey tableName)\<rparr>) w =
           (fst G, gh2, snd (snd G))"
    by (simp add: G_def gh2_def t_def)
  note Rc = ConfigFromState_cases [OF G, of keyID, folded R_def]
  have c2: "Client gh2 = Client gh"
    using GetState_client [of e t "''GitHub''" "gh\<lparr>State := Some t\<rparr>" w]
    by (simp add: gh2_def G_def)
  have a1: "\<forall>err. fst G = Some err \<longrightarrow>
          fst R = Return (Some err) \<and> Client (fst (snd R)) = Client gh"
    using Rc c2 by simp
  have a2: "\<forall>err. fst G = None \<and> ValidateState gh2 = Some err \<longrightarrow>
          fst R = Return (Some err) \<and> Client (fst (snd R)) = Client gh"
    using Rc c2 by simp
  have a3: "\<forall>err. fst G = None \<and> ValidateState gh2 = None \<and>
              Ssm_GetParameter e (Ssm_Config awsRegion) keyID = Inl err \<longrightarrow>
          fst R = Return (Some err) \<and> Client (fst (snd R)) = Client gh"
    using Rc c2 by (simp add: authenticate_secret_fails)
  have a4: "\<forall>err key a i. fst G = None \<and> ValidateState gh2 = None \<and>
              Ssm_GetParameter e (Ssm_Config awsRegion) keyID = Inr key \<and>
              GetAppIntID gh2 = Value a \<and> GetAppInstID gh2 = Value i \<and>
              ghapp_New e a i key = Inl err \<longrightarrow>
          fst R = Return (Some err) \<and> Client (fst (snd R)) = Client gh"
    using Rc c2 by (simp add: authenticate_ghapp_fails)
  have a5: "\<forall>err key a i tr ow rp n. fst G = None \<and> ValidateState gh2 = None \<and>
              Ssm_GetParameter e (Ssm_Config awsRegion) keyID = Inr key \<and>
              GetAppIntID gh2 = Value a \<and> GetAppInstID gh2 = Value i \<and>
              ghapp_New e a i key = Inr tr \<and>
              GetOwner gh2 = Value ow \<and> GetRepo gh2 = Value rp \<and> GetPrNum gh2 = Value n \<and>
              snd (PullRequests_Get e (GithubClient tr) ow rp n) = Some err \<longrightarrow>
          fst R = Return (Some err) \<and> Client (fst (snd R)) = Some (GithubClient tr)"
    using Rc by (simp add: authenticate_fetch)
  have P: "PutState e (DdbTable_Config awsRegion primaryKey tableName) gh1 w = (fst P, snd P)"
    by (simp add: P_def t_def)
  have gh1: "gh1 = gh\<lparr>RepoOwner := Some repoOwner, RepoName := Some repoName,
                   CheckRunName := Some checkRunName, InstallationID := Some installationID,
                   IntegrationID := Some integrationID, PrNum := Some prNum,
                   IntegrationType := Some ''GitHub'',
                   State := Some (DdbTable_Config awsRegion primaryKey tableName)\<rparr>"
    by (simp add: gh1_def t_def)
  note Sc = ConfigFromScratch_cases [OF P gh1, of keyID, folded S_def]
  have c1: "Client gh1 = Client gh"
    by (simp add: gh1_def)
  have ids: "GetAppIntID gh1 = (case Atoi integrationID of None \<Rightarrow> Panicked (AtoiFailed integrationID) | Some i \<Rightarrow> Value i)"
    "GetAppInstID gh1 = (case Atoi installationID of None \<Rightarrow> Panicked (AtoiFailed installationID) | Some i \<Rightarrow> Value i)"
    "GetPrNum gh1 = (case Atoi prNum of None \<Rightarrow> Panicked (AtoiFailed prNum) | Some i \<Rightarrow> Value i)"
    "GetOwner gh1 = Value repoOwner" "GetRepo gh1 = Value repoName"
    by (simp_all add: gh1_def GetAppIntID_def GetAppInstID_def GetPrNum_def GetOwner_def GetRepo_def)
  have b1: "\<forall>err. fst P = Some err \<longrightarrow>
          fst S = Return (Some err) \<and> Client (fst (snd S)) = Client gh"
    using Sc c1 by simp
  have b2: "\<forall>err. fst P = None \<and> Ssm_GetParameter e (Ssm_Config awsRegion) keyID = Inl err \<longrightarrow>
          fst S = Return (Some err) \<and> Client (fst (snd S)) = Client gh"
    using Sc c1 by (simp add: authenticate_secret_fails)
  have b3: "\<forall>err key a i. fst P = None \<and>
              Ssm_GetParameter e (Ssm_Config awsRegion) keyID = Inr key \<and>
              Atoi integrationID = Some a \<and> Atoi installationID = Some i \<and>
              ghapp_New e a i key = Inl err \<longrightarrow>
          fst S = Return (Some err) \<and> Client (fst (snd S)) = Client gh"
    using Sc c1 ids by (simp add: authenticate_ghapp_fails)
  have b4: "\<forall>err key a i tr n. fst P = None \<and>
              Ssm_GetParameter e (Ssm_Config awsRegion) keyID = Inr key \<and>
              Atoi integrationID = Some a \<and> Atoi installationID = Some i \<and>
              ghapp_New e a i key = Inr tr \<and> Atoi prNum = Some n \<and>
              snd (PullRequests_Get e (GithubClient tr) repoOwner repoName n) = Some err \<longrightarrow>
          fst S = Return (Some err) \<and> Client (fst (snd S)) = Some (GithubClient tr)"
    using Sc ids by (simp add: authenticate_fetch)
  from a1 a2 a3 a4 a5 b1 b2 b3 b4 show ?thesis
    unfolding Let_def t_def [symmetric] G_def [symmetric] gh2_def [symmetric] R_def [symmetric]
      gh1_def [symmetric] P_def [symmetric] S_def [symmetric]
    by (intro conjI)
qed

theorem construction_failure_and_client_witness:
  "fst (ConfigFromState example_env ''eu-west-1'' ''key-id'' blank_gh empty_world) =
     Return (Some (LibError ''state record not found'')) \<and>
   Client (fst (snd (ConfigFromState example_env ''eu-west-1'' ''key-id'' blank_gh empty_world))) = None \<and>
   fst (ConfigFromState example_env ''eu-west-1'' ''key-id'' blank_gh partial_world) =
     Return (Some (ErrorsNew ''ErrorMissingAttribute: PrNum'')) \<and>
   Client (fst (snd (ConfigFromState example_env ''eu-west-1'' ''key-id'' blank_gh partial_world))) = None \<and>
   fst (ConfigFromState secret_missing_env ''eu-west-1'' ''key-id'' blank_gh stored_world) =
     Return (Some (LibError ''ParameterNotFound'')) \<and>
   Client (fst (snd (ConfigFromState secret_missing_env ''eu-west-1'' ''key-id'' blank_gh stored_world))) = None \<and>
   fst (ConfigFromState bad_key_env ''eu-west-1'' ''key-id'' blank_gh stored_world) =
     Return (Some (LibError ''could not parse private key'')) \<and>
   Client (fst (snd (ConfigFromState bad_key_env ''eu-west-1'' ''key-id'' blank_gh stored_world))) = None \<and>
   fst (ConfigFromState fetch_failing_env ''eu-west-1'' ''key-id'' blank_gh stored_world) =
     Return (Some (LibError ''404 Not Found'')) \<and>
   Client (fst (snd (ConfigFromState fetch_failing_env ''eu-west-1'' ''key-id'' blank_gh stored_world))) =
     Some (GithubClient (Transport 1 2 ''key'')) \<and>
   fst (ConfigFromScratch store_down_env ''eu-west-1'' ''key-id'' ''owner'' ''repo'' ''sim''
          ''2'' ''1'' ''42'' blank_gh empty_world) = Return (Some (LibError ''store unreachable'')) \<and>
   Client (fst (snd (ConfigFromScratch store_down_env ''eu-west-1'' ''key-id'' ''owner'' ''repo''
          ''sim'' ''2'' ''1'' ''42'' blank_gh empty_world))) = None \<and>
   fst (ConfigFromScratch secret_missing_env ''eu-west-1'' ''key-id'' ''owner'' ''repo'' ''sim''
          ''2'' ''1'' ''42'' blank_gh empty_world) = Return (Some (LibError ''ParameterNotFound'')) \<and>
   Client (fst (snd (ConfigFromScratch secret_missing_env ''eu-west-1'' ''key-id'' ''owner'' ''repo''
          ''sim'' ''2'' ''1'' ''42'' blank_gh empty_world))) = None \<and>
   fst (ConfigFromScratch bad_key_env ''eu-west-1'' ''key-id'' ''owner'' ''repo'' ''sim''
          ''2'' ''1'' ''42'' blank_gh empty_world) = Return (Some (LibError ''could not parse private key'')) \<and>
   Client (fst (snd (ConfigFromScratch bad_key_env ''eu-west-1'' ''key-id'' ''owner'' ''repo''
          ''sim'' ''2'' ''1'' ''42'' blank_gh empty_world))) = None \<and>
   fst (ConfigFromScratch fetch_failing_env ''eu-west-1'' ''key-id'' ''owner'' ''repo'' ''sim''
          ''2'' ''1'' ''42'' blank_gh empty_world) = Return (Some (LibError ''404 Not Found'')) \<and>
   Client (fst (snd (ConfigFromScratch fetch_failing_env ''eu-west-1'' ''key-id'' ''owner'' ''repo''
          ''sim'' ''2'' ''1'' ''42'' blank_gh empty_world))) = Some (GithubClient (Transport 1 2 ''key''))"
proof -
  let ?t = "DdbTable_Config ''eu-west-1'' primaryKey tableName"
  let ?gh0 = "blank_gh\<lparr>State := Some ?t\<rparr>"
  let ?gh1 = "blank_gh\<lparr>RepoOwner := Some ''owner'', RepoName := Some ''repo'',
                   CheckRunName := Some ''sim'', InstallationID := Some ''2'',
                   IntegrationID := Some ''1'', PrNum := Some ''42'',
                   IntegrationType := Some ''GitHub'', State := Some ?t\<rparr>"
  let ?gh2 = "load_item (item_of example_gh) ?gh0"
  have blank: "Client blank_gh = None"
    by (simp add: blank_gh_def)
  have faults: "GetState_fault example_env = (\<lambda>_ _. None)"
    "GetState_fault secret_missing_env = (\<lambda>_ _. None)"
    "GetState_fault bad_key_env = (\<lambda>_ _. None)"
    "GetState_fault fetch_failing_env = (\<lambda>_ _. None)"
    by (simp_all add: example_env_def secret_missing_env_def bad_key_env_def fetch_failing_env_def)
  have g1: "fst (GetState example_env ?t ''GitHub'' ?gh0 empty_world) =
              Some (LibError ''state record not found'')"
    by (simp add: GetState_def faults empty_world_def Let_def)
  have g2: "GetState example_env ?t ''GitHub'' ?gh0 partial_world =
              (None, load_item (item_of (example_gh\<lparr>PrNum := None\<rparr>)) ?gh0,
               record_call (DdbGetState ?t ''GitHub'') partial_world)"
    by (simp add: GetState_def faults partial_world_def Let_def DdbTable_Config_def tableName_def)
  have v2: "ValidateState (load_item (item_of (example_gh\<lparr>PrNum := None\<rparr>)) ?gh0) =
              Some (ErrorsNew ''ErrorMissingAttribute: PrNum'')"
    by (simp add: ValidateState_def load_item_def item_of_def example_gh_def)
  have g3: "\<And>e. GetState_fault e = (\<lambda>_ _. None) \<Longrightarrow>
              GetState e ?t ''GitHub'' ?gh0 stored_world =
                (None, ?gh2, record_call (DdbGetState ?t ''GitHub'') stored_world)"
    by (simp add: GetState_def stored_world_def Let_def DdbTable_Config_def tableName_def)
  have l2: "ValidateState ?gh2 = None" "GetAppIntID ?gh2 = Value 1" "GetAppInstID ?gh2 = Value 2"
    "GetOwner ?gh2 = Value ''owner''" "GetRepo ?gh2 = Value ''repo''" "GetPrNum ?gh2 = Value 42"
    by (simp_all add: ValidateState_def load_item_def item_of_def example_gh_def GetAppIntID_def
        GetAppInstID_def GetOwner_def GetRepo_def GetPrNum_def Atoi_examples)
  have f: "Ssm_GetParameter fetch_failing_env (Ssm_Config ''eu-west-1'') ''key-id'' = Inr ''key''"
    "ghapp_New fetch_failing_env 1 2 ''key'' = Inr (Transport 1 2 ''key'')"
    "\<And>c ow rp n. snd (PullRequests_Get fetch_failing_env c ow rp n) = Some (LibError ''404 Not Found'')"
    by (simp_all add: fetch_failing_env_def example_env_def)
  have k: "Ssm_GetParameter bad_key_env (Ssm_Config ''eu-west-1'') ''key-id'' = Inr ''key''"
    "ghapp_New bad_key_env 1 2 ''key'' = Inl (LibError ''could not parse private key'')"
    by (simp_all add: bad_key_env_def example_env_def)
  have s: "Ssm_GetParameter secret_missing_env (Ssm_Config ''eu-west-1'') ''key-id'' =
             Inl (LibError ''ParameterNotFound'')"
    by (simp add: secret_missing_env_def example_env_def)
  have p: "fst (PutState secret_missing_env ?t ?gh1 empty_world) = None"
    "fst (PutState fetch_failing_env ?t ?gh1 empty_world) = None"
    "fst (PutState bad_key_env ?t ?gh1 empty_world) = None"
    "fst (PutState store_down_env ?t ?gh1 empty_world) = Some (LibError ''store unreachable'')"
    by (simp_all add: PutState_def secret_missing_env_def fetch_failing_env_def bad_key_env_def
        store_down_env_def example_env_def Let_def)
  note T = construction_failure_and_client [where awsRegion = "''eu-west-1''" and keyID = "''key-id''"
      and gh = blank_gh and repoOwner = "''owner''" and repoName = "''repo''"
      and checkRunName = "''sim''" and installationID = "''2''" and integrationID = "''1''"
      and prNum = "''42''", unfolded Let_def]
  from T [where e = example_env and w = empty_world] g1 blank
  have a1: "fst (ConfigFromState example_env ''eu-west-1'' ''key-id'' blank_gh empty_world) =
     Return (Some (LibError ''state record not found'')) \<and>
   Client (fst (snd (ConfigFromState example_env ''eu-west-1'' ''key-id'' blank_gh empty_world))) = None"
    by simp
  from T [where e = example_env and w = partial_world] g2 v2 blank
  have a2: "fst (ConfigFromState example_env ''eu-west-1'' ''key-id'' blank_gh partial_world) =
     Return (Some (ErrorsNew ''ErrorMissingAttribute: PrNum'')) \<and>
   Client (fst (snd (ConfigFromState example_env ''eu-west-1'' ''key-id'' blank_gh partial_world))) = None"
    by simp
  from T [where e = secret_missing_env and w = stored_world] g3 [OF faults(2)] l2 s blank
  have a3: "fst (ConfigFromState secret_missing_env ''eu-west-1'' ''key-id'' blank_gh stored_world) =
     Return (Some (LibError ''ParameterNotFound'')) \<and>
   Client (fst (snd (ConfigFromState secret_missing_env ''eu-west-1'' ''key-id'' blank_gh stored_world))) = None"
    by simp
  from T [where e = bad_key_env and w = stored_world] g3 [OF faults(3)] l2 k blank
  have a4: "fst (ConfigFromState bad_key_env ''eu-west-1'' ''key-id'' blank_gh stored_world) =
     Return (Some (LibError ''could not parse private key'')) \<and>
   Client (fst (snd (ConfigFromState bad_key_env ''eu-west-1'' ''key-id'' blank_gh stored_world))) = None"
    by simp
  from T [where e = fetch_failing_env and w = stored_world] g3 [OF faults(4)] l2 f
  have a5: "fst (ConfigFromState fetch_failing_env ''eu-west-1'' ''key-id'' blank_gh stored_world) =
     Return (Some (LibError ''404 Not Found'')) \<and>
   Client (fst (snd (ConfigFromState fetch_failing_env ''eu-west-1'' ''key-id'' blank_gh stored_world))) =
     Some (GithubClient (Transport 1 2 ''key''))"
    by simp
  from T [where e = store_down_env and w = empty_world] p(4) blank
  have b1: "fst (ConfigFromScratch store_down_env ''eu-west-1'' ''key-id'' ''owner'' ''repo'' ''sim''
          ''2'' ''1'' ''42'' blank_gh empty_world) = Return (Some (LibError ''store unreachable'')) \<and>
   Client (fst (snd (ConfigFromScratch store_down_env ''eu-west-1'' ''key-id'' ''owner'' ''repo''
          ''sim'' ''2'' ''1'' ''42'' blank_gh empty_world))) = None"
    by simp
  from T [where e = secret_missing_env and w = empty_world] p(1) s blank
  have b2: "fst (ConfigFromScratch secret_missing_env ''eu-west-1'' ''key-id'' ''owner'' ''repo'' ''sim''
          ''2'' ''1'' ''42'' blank_gh empty_world) = Return (Some (LibError ''ParameterNotFound'')) \<and>
   Client (fst (snd (ConfigFromScratch secret_missing_env ''eu-west-1'' ''key-id'' ''owner'' ''repo''
          ''sim'' ''2'' ''1'' ''42'' blank_gh empty_world))) = None"
    by simp
  from T [where e = bad_key_env and w = empty_world] p(3) k Atoi_examples blank
  have b3: "fst (ConfigFromScratch bad_key_env ''eu-west-1'' ''key-id'' ''owner'' ''repo'' ''sim''
          ''2'' ''1'' ''42'' blank_gh empty_world) = Return (Some (LibError ''could not parse private key'')) \<and>
   Client (fst (snd (ConfigFromScratch bad_key_env ''eu-west-1'' ''key-id'' ''owner'' ''repo''
          ''sim'' ''2'' ''1'' ''42'' blank_gh empty_world))) = None"
    by simp
  from T [where e = fetch_failing_env and w = empty_world] p(2) f Atoi_examples
  have b4: "fst (ConfigFromScratch fetch_failing_env ''eu-west-1'' ''key-id'' ''owner'' ''repo'' ''sim''
          ''2'' ''1'' ''42'' blank_gh empty_world) = Return (Some (LibError ''404 Not Found'')) \<and>
   Client (fst (snd (ConfigFromScratch fetch_failing_env ''eu-west-1'' ''key-id'' ''owner'' ''repo''
          ''sim'' ''2'' ''1'' ''42'' blank_gh empty_world))) = Some (GithubClient (Transport 1 2 ''key''))"
    by simp
  from a1 a2 a3 a4 a5 b1 b2 b3 b4 show ?thesis by blast
qed

subsection \<open>Fresh construction, then resume\<close>

lemma item_of_load_item: "item_of (load_item it gh) = it"
  by (simp add: item_of_def load_item_def)

lemma PutState_stores:
  "fst (PutState e t gh w) = None \<Longrightarrow> IntegrationType gh = Some k \<Longrightarrow>
   tables (snd (PutState e t gh w)) (Region t, TableName t) k = Some (item_of gh)"
  by (simp add: PutState_def record_call_def Let_def split: option.splits)

lemma GetState_loads:
  "GetState_fault e t key = None \<Longrightarrow> tables w (Region t, TableName t) key = Some it \<Longrightarrow>
   GetState e t key gh w = (None, load_item it gh, record_call (DdbGetState t key) w)"
  by (simp add: GetState_def Let_def)

lemma ValidateState_item:
  "ValidateState gh = None \<longleftrightarrow>
     Item_IntegrationID (item_of gh) \<noteq> None \<and> Item_InstallationID (item_of gh) \<noteq> None \<and>
     Item_PrNum (item_of gh) \<noteq> None \<and> Item_RepoName (item_of gh) \<noteq> None \<and>
     Item_RepoOwner (item_of gh) \<noteq> None \<and> Item_CheckRunName (item_of gh) \<noteq> None"
  by (simp add: ValidateState_def item_of_def)

text \<open>
  C7. When the write of ConfigFromScratch succeeds, the state table of the region holds, under
  ``GitHub'', exactly the seven identity and configuration fields as supplied. A later
  ConfigFromState for the same region, in a world with these tables and a load that does not
  fault, ends with the same seven fields, whatever the Integration it starts from and however
  its authentication goes. Client, pull request and active check run are no part of the stored
  record.
\<close>

theorem fresh_then_resume_roundtrip:
  "let t = DdbTable_Config awsRegion primaryKey tableName;
       gh1 = gh\<lparr>RepoOwner := Some repoOwner, RepoName := Some repoName,
                CheckRunName := Some checkRunName, InstallationID := Some installationID,
                IntegrationID := Some integrationID, PrNum := Some prNum,
                IntegrationType := Some ''GitHub'', State := Some t\<rparr>;
       written = \<lparr>Item_IntegrationType = Some ''GitHub'', Item_CheckRunName = Some checkRunName,
                  Item_InstallationID = Some installationID,
                  Item_IntegrationID = Some integrationID, Item_RepoOwner = Some repoOwner,
                  Item_RepoName = Some repoName, Item_PrNum = Some prNum\<rparr>;
       R1 = ConfigFromScratch e awsRegion privateKeyID repoOwner repoName checkRunName
              installationID integrationID prNum gh w;
       R2 = ConfigFromState e' awsRegion tokenID gh' w'
   in fst (PutState e t gh1 w) = None \<and> tables w' = tables (snd (snd R1)) \<and>
      GetState_fault e' t ''GitHub'' = None \<longrightarrow>
        tables (snd (snd R1)) (awsRegion, tableName) ''GitHub'' = Some written \<and>
        item_of (fst (snd R1)) = written \<and>
        item_of (fst (snd R2)) = written"
proof -
  define t where "t = DdbTable_Config awsRegion primaryKey tableName"
  define gh1 where "gh1 = gh\<lparr>RepoOwner := Some repoOwner, RepoName := Some repoName,
                CheckRunName := Some checkRunName, InstallationID := Some installationID,
                IntegrationID := Some integrationID, PrNum := Some prNum,
                IntegrationType := Some ''GitHub'', State := Some t\<rparr>"
  define written where "written = \<lparr>Item_IntegrationType = Some ''GitHub'', Item_CheckRunName = Some checkRunName,
                  Item_InstallationID = Some installationID,
                  Item_IntegrationID = Some integrationID, Item_RepoOwner = Some repoOwner,
                  Item_RepoName = Some repoName, Item_PrNum = Some prNum\<rparr>"
  define R1 where "R1 = ConfigFromScratch e awsRegion privateKeyID repoOwner repoName checkRunName
              installationID integrationID prNum gh w"
  define R2 where "R2 = ConfigFromState e' awsRegion tokenID gh' w'"
  have t: "Region t = awsRegion" "TableName t = tableName"
    by (simp_all add: t_def DdbTable_Config_def)
  have item1: "item_of gh1 = written"
    by (simp add: item_of_def gh1_def written_def)
  have key1: "IntegrationType gh1 = Some ''GitHub''"
    by (simp add: gh1_def)
  have main: "tables (snd (snd R1)) (awsRegion, tableName) ''GitHub'' = Some written \<and>
        item_of (fst (snd R1)) = written \<and> item_of (fst (snd R2)) = written"
    if ok: "fst (PutState e t gh1 w) = None" and same: "tables w' = tables (snd (snd R1))"
      and load: "GetState_fault e' t ''GitHub'' = None"
  proof -
    have P: "PutState e (DdbTable_Config awsRegion primaryKey tableName) gh1 w =
               (None, snd (PutState e t gh1 w))"
      using ok by (simp add: t_def prod_eq_iff)
    have gh1': "gh1 = gh\<lparr>RepoOwner := Some repoOwner, RepoName := Some repoName,
                   CheckRunName := Some checkRunName, InstallationID := Some installationID,
                   IntegrationID := Some integrationID, PrNum := Some prNum,
                   IntegrationType := Some ''GitHub'',
                   State := Some (DdbTable_Config awsRegion primaryKey tableName)\<rparr>"
      by (simp add: gh1_def t_def)
    have R1: "R1 = authenticate e awsRegion privateKeyID gh1 (snd (PutState e t gh1 w))"
      using ConfigFromScratch_cases [OF P gh1', of privateKeyID] by (simp add: R1_def)
    have stored: "tables (snd (snd R1)) (awsRegion, tableName) ''GitHub'' = Some written"
      using PutState_stores [OF ok key1] by (simp add: R1 authenticate_tables t item1)
    have i1: "item_of (fst (snd R1)) = written"
      by (simp add: R1 authenticate_item item1)
    have G: "GetState e' (DdbTable_Config awsRegion primaryKey tableName) ''GitHub''
               (gh'\<lparr>State := Some (DdbTable_Config awsRegion primaryKey tableName)\<rparr>) w' =
             (None, load_item written (gh'\<lparr>State := Some t\<rparr>),
              record_call (DdbGetState t ''GitHub'') w')"
      using GetState_loads [OF load, of w' written "gh'\<lparr>State := Some t\<rparr>"] stored same
      by (simp add: t t_def [symmetric])
    have v: "ValidateState (load_item written (gh'\<lparr>State := Some t\<rparr>)) = None"
      by (simp add: ValidateState_item item_of_load_item written_def)
    have "R2 = authenticate e' awsRegion tokenID (load_item written (gh'\<lparr>State := Some t\<rparr>))
                 (record_call (DdbGetState t ''GitHub'') w')"
      using ConfigFromState_cases [OF G, of tokenID] v by (simp add: R2_def)
    then have i2: "item_of (fst (snd R2)) = written"
      by (simp add: authenticate_item item_of_load_item)
    from stored i1 i2 show ?thesis by simp
  qed
  then show ?thesis
    unfolding Let_def t_def [symmetric] gh1_def [symmetric] written_def [symmetric]
      R1_def [symmetric] R2_def [symmetric]
    by blast
qed

theorem fresh_then_resume_roundtrip_witness:
  "item_of (fst (snd (ConfigFromState example_env ''eu-west-1'' ''key-id'' blank_gh
      (snd (snd (ConfigFromScratch example_env ''eu-west-1'' ''key-id'' ''owner'' ''repo'' ''sim''
          ''2'' ''1'' ''42'' blank_gh empty_world)))))) =
     \<lparr>Item_IntegrationType = Some ''GitHub'', Item_CheckRunName = Some ''sim'',
      Item_InstallationID = Some ''2'', Item_IntegrationID = Some ''1'',
      Item_RepoOwner = Some ''owner'', Item_RepoName = Some ''repo'', Item_PrNum = Some ''42''\<rparr>"
proof -
  let ?t = "DdbTable_Config ''eu-west-1'' primaryKey tableName"
  let ?gh1 = "blank_gh\<lparr>RepoOwner := Some ''owner'', RepoName := Some ''repo'',
                   CheckRunName := Some ''sim'', InstallationID := Some ''2'',
                   IntegrationID := Some ''1'', PrNum := Some ''42'',
                   IntegrationType := Some ''GitHub'', State := Some ?t\<rparr>"
  have p: "fst (PutState example_env ?t ?gh1 empty_world) = None"
    by (simp add: PutState_def example_env_def Let_def)
  have g: "GetState_fault example_env ?t ''GitHub'' = None"
    by (simp add: example_env_def)
  from fresh_then_resume_roundtrip [where e = example_env and e' = example_env
      and awsRegion = "''eu-west-1''" and privateKeyID = "''key-id''" and tokenID = "''key-id''"
      and repoOwner = "''owner''" and repoName = "''repo''"
      and checkRunName = "''sim''" and installationID = "''2''" and integrationID = "''1''"
      and prNum = "''42''" and gh = blank_gh and gh' = blank_gh and w = empty_world
      and w' = "snd (snd (ConfigFromScratch example_env ''eu-west-1'' ''key-id'' ''owner'' ''repo'' ''sim''
          ''2'' ''1'' ''42'' blank_gh empty_world))", unfolded Let_def] p g
  show ?thesis by simp
qed

end
